theory Spec2Isabelle
  imports Main "HOL-Library.Word" "HOL-Library.AList"
begin

unbundle bit_operations_syntax

section \<open>Scaffold identifiers: a model of scafid.py\<close>

text \<open>
  The development follows \<^verbatim>\<open>src/Scaffold_utilities/scafid.py\<close>. Python strings are
  modelled as \<^typ>\<open>string\<close>, one \<^typ>\<open>char\<close> per code point, so the keys covered are those
  whose code points lie below 256 (SMILES strings are ASCII). A cell of a data frame is an
  \<^verbatim>\<open>Optional[str]\<close>, as the annotations of the source have it; a missing value
  that pandas holds as a floating-point NaN is outside the model. The process-wide random
  generator is an explicit stream of draws together with the number of draws consumed.
  A call that never returns has the value \<open>None\<close>, a call that raises has a value
  \<open>Some (Inl e)\<close>.
\<close>

subsection \<open>Python values and string helpers\<close>

datatype pyval = PyStr string | PyNone

datatype error =
    ValueError_strategy        \<comment> \<open>\<^verbatim>\<open>ValueError("strategy debe ser 'stable' o 'random'.")\<close>\<close>
  | ValueError_column string   \<comment> \<open>\<^verbatim>\<open>ValueError\<close> naming a missing column\<close>
  | IndexError_choice          \<comment> \<open>\<^verbatim>\<open>random.choice\<close> on an empty sequence\<close>

text \<open>\<^verbatim>\<open>str.isspace\<close> restricted to the code points below 256.\<close>

definition py_isspace :: "char \<Rightarrow> bool" where
  "py_isspace c =
     (let n = (of_char c :: nat)
      in (9 \<le> n \<and> n \<le> 13) \<or> (28 \<le> n \<and> n \<le> 32) \<or> n = 133 \<or> n = 160)"

text \<open>\<^verbatim>\<open>s.strip()\<close>: leading and trailing whitespace removed.\<close>

definition py_strip :: "string \<Rightarrow> string" where
  "py_strip s = rev (dropWhile py_isspace (rev (dropWhile py_isspace s)))"

text \<open>\<^verbatim>\<open>s.rstrip('=')\<close>.\<close>

definition py_rstrip_eq :: "string \<Rightarrow> string" where
  "py_rstrip_eq s = rev (dropWhile (\<lambda>c. c = CHR ''='') (rev s))"

text \<open>\<^verbatim>\<open>s[:n]\<close>: a negative bound counts from the end of the string.\<close>

definition py_slice_to :: "string \<Rightarrow> int \<Rightarrow> string" where
  "py_slice_to s n = (if 0 \<le> n then take (nat n) s else take (nat (int (length s) + n)) s)"

text \<open>\<^verbatim>\<open>str(x)\<close> on a cell, as \<^verbatim>\<open>astype(str)\<close> applies it.\<close>

fun py_str :: "pyval \<Rightarrow> string" where
  "py_str (PyStr s) = s"
| "py_str PyNone = ''None''"

subsection \<open>UTF-8 and SHA-1 (\<^verbatim>\<open>text.encode('utf-8')\<close>, \<^verbatim>\<open>hashlib.sha1\<close>)\<close>

type_synonym byte = "8 word"
type_synonym sha1_state = "32 word \<times> 32 word \<times> 32 word \<times> 32 word \<times> 32 word"

definition encode_utf8_char :: "char \<Rightarrow> byte list" where
  "encode_utf8_char c =
     (let b = (of_char c :: byte)
      in if b < 0x80 then [b] else [0xC0 OR drop_bit 6 b, 0x80 OR (b AND 0x3F)])"

definition encode_utf8 :: "string \<Rightarrow> byte list" where
  "encode_utf8 s = concat (map encode_utf8_char s)"

definition rotl32 :: "nat \<Rightarrow> 32 word \<Rightarrow> 32 word" where
  "rotl32 n x = push_bit n x OR drop_bit (32 - n) x"

definition be_bytes64 :: "nat \<Rightarrow> byte list" where
  "be_bytes64 n = map (\<lambda>i. ucast (drop_bit (8 * (7 - i)) (of_nat n :: 64 word))) [0..<8]"

definition sha1_pad :: "byte list \<Rightarrow> byte list" where
  "sha1_pad m =
     m @ [0x80] @ replicate ((119 - length m mod 64) mod 64) 0 @ be_bytes64 (8 * length m)"

fun be_words :: "byte list \<Rightarrow> 32 word list" where
  "be_words (a # b # c # d # rest) =
     (push_bit 24 (ucast a) OR push_bit 16 (ucast b) OR push_bit 8 (ucast c) OR ucast d)
       # be_words rest"
| "be_words _ = []"

fun blocks16 :: "nat \<Rightarrow> 32 word list \<Rightarrow> 32 word list list" where
  "blocks16 0 ws = []"
| "blocks16 (Suc k) ws = take 16 ws # blocks16 k (drop 16 ws)"

text \<open>The message schedule, built newest word first.\<close>

fun expand :: "nat \<Rightarrow> 32 word list \<Rightarrow> 32 word list" where
  "expand 0 ws = ws"
| "expand (Suc n) ws =
     expand n (rotl32 1 (ws ! 2 XOR ws ! 7 XOR ws ! 13 XOR ws ! 15) # ws)"

definition schedule :: "32 word list \<Rightarrow> 32 word list" where
  "schedule blk = rev (expand 64 (rev blk))"

definition sha1_f :: "nat \<Rightarrow> 32 word \<Rightarrow> 32 word \<Rightarrow> 32 word \<Rightarrow> 32 word" where
  "sha1_f t b c d =
     (if t < 20 then (b AND c) OR (NOT b AND d)
      else if t < 40 then b XOR c XOR d
      else if t < 60 then (b AND c) OR (b AND d) OR (c AND d)
      else b XOR c XOR d)"

definition sha1_k :: "nat \<Rightarrow> 32 word" where
  "sha1_k t =
     (if t < 20 then 0x5A827999 else if t < 40 then 0x6ED9EBA1
      else if t < 60 then 0x8F1BBCDC else 0xCA62C1D6)"

fun sha1_round :: "nat \<times> 32 word \<Rightarrow> sha1_state \<Rightarrow> sha1_state" where
  "sha1_round (t, w) (a, b, c, d, e) =
     (rotl32 5 a + sha1_f t b c d + e + sha1_k t + w, a, rotl32 30 b, c, d)"

fun sha1_compress :: "32 word list \<Rightarrow> sha1_state \<Rightarrow> sha1_state" where
  "sha1_compress blk (h0, h1, h2, h3, h4) =
     (case fold sha1_round (zip [0..<80] (schedule blk)) (h0, h1, h2, h3, h4) of
        (a, b, c, d, e) \<Rightarrow> (h0 + a, h1 + b, h2 + c, h3 + d, h4 + e))"

definition sha1_init :: sha1_state where
  "sha1_init = (0x67452301, 0xEFCDAB89, 0x98BADCFE, 0x10325476, 0xC3D2E1F0)"

definition be_bytes32 :: "32 word \<Rightarrow> byte list" where
  "be_bytes32 w = [ucast (drop_bit 24 w), ucast (drop_bit 16 w), ucast (drop_bit 8 w), ucast w]"

definition sha1 :: "byte list \<Rightarrow> byte list" where
  "sha1 m =
     (let ws = be_words (sha1_pad m)
      in case fold sha1_compress (blocks16 (length ws div 16) ws) sha1_init of
           (h0, h1, h2, h3, h4) \<Rightarrow> concat (map be_bytes32 [h0, h1, h2, h3, h4]))"

subsection \<open>Base32 (\<^verbatim>\<open>base64.b32encode\<close>)\<close>

definition b32_alphabet :: string where
  "b32_alphabet = ''ABCDEFGHIJKLMNOPQRSTUVWXYZ234567''"

definition from_bytes_big :: "byte list \<Rightarrow> nat" where
  "from_bytes_big bs = foldl (\<lambda>acc b. acc * 256 + unat b) 0 bs"

text \<open>One quantum: five bytes give eight symbols, five bits each.\<close>

definition b32_quantum :: "byte list \<Rightarrow> string" where
  "b32_quantum q =
     (let c = from_bytes_big q
      in map (\<lambda>i. b32_alphabet ! ((c div 32 ^ (7 - i)) mod 32)) [0..<8])"

fun b32_quanta :: "nat \<Rightarrow> byte list \<Rightarrow> string" where
  "b32_quanta 0 s = []"
| "b32_quanta (Suc k) s = b32_quantum (take 5 s) @ b32_quanta k (drop 5 s)"

definition b32encode :: "byte list \<Rightarrow> string" where
  "b32encode s =
     (let leftover = length s mod 5;
          s' = (if leftover \<noteq> 0 then s @ replicate (5 - leftover) 0 else s);
          encoded = b32_quanta (length s' div 5) s';
          npad = (if leftover = 1 then 6 else if leftover = 2 then 4
                  else if leftover = 3 then 3 else if leftover = 4 then 1 else 0)
      in take (length encoded - npad) encoded @ replicate npad CHR ''='')"

subsection \<open>Identifier generators\<close>

text \<open>\<^verbatim>\<open>_hash_b32\<close>: SHA-1, Base32, padding stripped, cut at \<open>length\<close>.\<close>

definition hash_b32 :: "string \<Rightarrow> int \<Rightarrow> string" where
  "hash_b32 text len =
     (let h = sha1 (encode_utf8 text);
          b32 = py_rstrip_eq (b32encode h)
      in py_slice_to b32 len)"

text \<open>
  The random generator: \<open>src p\<close> is the \<open>p\<close>-th draw of the process, and the state that the
  functions below pass along is the number of draws consumed so far.
\<close>

type_synonym rand_source = "nat \<Rightarrow> nat"

definition default_chars :: string where
  "default_chars = ''ABCDEFGHIJKLMNOPQRSTUVWXYZ0123456789''"

text \<open>\<^verbatim>\<open>random.choice(chars)\<close>: an \<^verbatim>\<open>IndexError\<close> on an empty alphabet.\<close>

definition random_choice :: "rand_source \<Rightarrow> nat \<Rightarrow> string \<Rightarrow> error + (char \<times> nat)" where
  "random_choice src p chars =
     (if chars = [] then Inl IndexError_choice
      else Inr (chars ! (src p mod length chars), Suc p))"

text \<open>\<^verbatim>\<open>''.join(random.choice(chars) for _ in range(n))\<close>.\<close>

fun join_choices :: "rand_source \<Rightarrow> nat \<Rightarrow> string \<Rightarrow> nat \<Rightarrow> error + (string \<times> nat)" where
  "join_choices src p chars 0 = Inr ([], p)"
| "join_choices src p chars (Suc n) =
     (case random_choice src p chars of
        Inl e \<Rightarrow> Inl e
      | Inr (c, p') \<Rightarrow>
          (case join_choices src p' chars n of
             Inl e \<Rightarrow> Inl e
           | Inr (cs, p'') \<Rightarrow> Inr (c # cs, p'')))"

definition id_generator :: "rand_source \<Rightarrow> nat \<Rightarrow> int \<Rightarrow> string \<Rightarrow> error + (string \<times> nat)" where
  "id_generator src p sz chars = join_choices src p chars (nat sz)"

text \<open>
  Line 90 of the source:
  \<^verbatim>\<open>key = scaffold_smiles.strip() if isinstance(scaffold_smiles, str) else "NA_SCAFFOLD"\<close>.
\<close>

definition scaffold_key :: "pyval \<Rightarrow> string" where
  "scaffold_key scaffold_smiles =
     (case scaffold_smiles of PyStr s \<Rightarrow> py_strip s | PyNone \<Rightarrow> ''NA_SCAFFOLD'')"

definition make_scaffold_id ::
  "rand_source \<Rightarrow> nat \<Rightarrow> pyval \<Rightarrow> string \<Rightarrow> int \<Rightarrow> string \<Rightarrow> error + (string \<times> nat)" where
  "make_scaffold_id src p scaffold_smiles strategy len rnd_chars =
     (if strategy \<noteq> ''stable'' \<and> strategy \<noteq> ''random'' then Inl ValueError_strategy
      else
        let key = scaffold_key scaffold_smiles
        in if strategy = ''stable'' then Inr (hash_b32 key len, p)
           else id_generator src p len rnd_chars)"

subsection \<open>The retry loop\<close>

text \<open>
  \<^verbatim>\<open>while new_id in seen: new_id = id_generator(size=length)\<close>, the loop of
  \<^verbatim>\<open>ensure_unique\<close> (lines 143-144) and of \<^verbatim>\<open>get_or_make_id\<close> (lines 197-198). The
  source puts no bound on it, so the model is a partial function: \<open>None\<close> is a loop that
  never ends.
\<close>

partial_function (option) regenerate ::
  "rand_source \<Rightarrow> int \<Rightarrow> string set \<Rightarrow> string \<Rightarrow> nat \<Rightarrow> (error + (string \<times> nat)) option" where
  "regenerate src len seen new_id p =
     (if new_id \<in> seen then
        (case id_generator src p len default_chars of
           Inl e \<Rightarrow> Some (Inl e)
         | Inr (c, p') \<Rightarrow> regenerate src len seen c p')
      else Some (Inr (new_id, p)))"

subsection \<open>Data frames\<close>

text \<open>
  A data frame is its columns in order, each a name with its cells; \<open>df[c]\<close> is
  \<^term>\<open>map_of df c\<close> and \<open>df[c] = cells\<close> is \<^term>\<open>AList.update c cells df\<close>.
\<close>

type_synonym dataframe = "(string \<times> pyval list) list"

subsection \<open>\<^verbatim>\<open>assign_ids\<close>\<close>

text \<open>The first pass: \<^verbatim>\<open>make_scaffold_id\<close> on every cell, in row order.\<close>

fun apply_make_scaffold_id ::
  "rand_source \<Rightarrow> nat \<Rightarrow> string \<Rightarrow> int \<Rightarrow> pyval list \<Rightarrow> error + (string list \<times> nat)" where
  "apply_make_scaffold_id src p strategy len [] = Inr ([], p)"
| "apply_make_scaffold_id src p strategy len (s # rest) =
     (case make_scaffold_id src p s strategy len default_chars of
        Inl e \<Rightarrow> Inl e
      | Inr (i, p') \<Rightarrow>
          (case apply_make_scaffold_id src p' strategy len rest of
             Inl e \<Rightarrow> Inl e
           | Inr (ids, p'') \<Rightarrow> Inr (i # ids, p'')))"

text \<open>The closure \<^verbatim>\<open>ensure_unique\<close>; its captured set \<open>seen\<close> is passed and returned.\<close>

definition ensure_unique ::
  "rand_source \<Rightarrow> int \<Rightarrow> string set \<Rightarrow> nat \<Rightarrow> string
     \<Rightarrow> (error + (string \<times> string set \<times> nat)) option" where
  "ensure_unique src len seen p x =
     (if x \<notin> seen then Some (Inr (x, insert x seen, p))
      else
        (case regenerate src len seen x p of
           None \<Rightarrow> None
         | Some (Inl e) \<Rightarrow> Some (Inl e)
         | Some (Inr (new_id, p')) \<Rightarrow> Some (Inr (new_id, insert new_id seen, p'))))"

fun apply_ensure_unique ::
  "rand_source \<Rightarrow> int \<Rightarrow> string set \<Rightarrow> nat \<Rightarrow> string list
     \<Rightarrow> (error + (string list \<times> string set \<times> nat)) option" where
  "apply_ensure_unique src len seen p [] = Some (Inr ([], seen, p))"
| "apply_ensure_unique src len seen p (x # rest) =
     (case ensure_unique src len seen p x of
        None \<Rightarrow> None
      | Some (Inl e) \<Rightarrow> Some (Inl e)
      | Some (Inr (i, seen', p')) \<Rightarrow>
          (case apply_ensure_unique src len seen' p' rest of
             None \<Rightarrow> None
           | Some (Inl e) \<Rightarrow> Some (Inl e)
           | Some (Inr (ids, seen'', p'')) \<Rightarrow> Some (Inr (i # ids, seen'', p''))))"

text \<open>
  \<^verbatim>\<open>assign_ids\<close>. The result is \<open>None\<close> when the call never returns, \<open>Some (Inl e)\<close> when
  it raises \<open>e\<close>, and \<open>Some (Inr (out, p))\<close> when it returns the frame \<open>out\<close> with \<open>p\<close>
  draws consumed.
\<close>

definition assign_ids ::
  "rand_source \<Rightarrow> nat \<Rightarrow> dataframe \<Rightarrow> string \<Rightarrow> string \<Rightarrow> string \<Rightarrow> int
     \<Rightarrow> (error + (dataframe \<times> nat)) option" where
  "assign_ids src p df scaffold_col id_col strategy len =
     (case map_of df scaffold_col of
        None \<Rightarrow> Some (Inl (ValueError_column scaffold_col))
      | Some cells \<Rightarrow>
          (case apply_make_scaffold_id src p strategy len cells of
             Inl e \<Rightarrow> Some (Inl e)
           | Inr (ids, p') \<Rightarrow>
               let out = AList.update id_col (map PyStr ids) df
               in if strategy = ''random'' then
                    (case apply_ensure_unique src len {} p' ids of
                       None \<Rightarrow> None
                     | Some (Inl e) \<Rightarrow> Some (Inl e)
                     | Some (Inr (ids', seen, p'')) \<Rightarrow>
                         Some (Inr (AList.update id_col (map PyStr ids') out, p'')))
                  else Some (Inr (out, p'))))"

subsection \<open>\<^verbatim>\<open>extrapolate_ids\<close>\<close>

text \<open>\<^verbatim>\<open>dict(zip(keys, values))\<close>: a later pair replaces an earlier one with the same key.\<close>

definition dict_zip :: "pyval list \<Rightarrow> pyval list \<Rightarrow> (pyval \<rightharpoonup> pyval)" where
  "dict_zip ks vs = fold (\<lambda>(k, v) m. m(k \<mapsto> v)) (zip ks vs) Map.empty"

text \<open>
  The closure \<^verbatim>\<open>get_or_make_id\<close>; \<open>mapping\<close> is only read, the captured set
  \<open>existing_ids\<close> is passed and returned.
\<close>

definition get_or_make_id ::
  "rand_source \<Rightarrow> string \<Rightarrow> int \<Rightarrow> (pyval \<rightharpoonup> pyval) \<Rightarrow> string set \<Rightarrow> nat \<Rightarrow> pyval
     \<Rightarrow> (error + (pyval \<times> string set \<times> nat)) option" where
  "get_or_make_id src strategy_new len mapping existing_ids p scaffold =
     (case mapping scaffold of
        Some v \<Rightarrow> Some (Inr (v, existing_ids, p))
      | None \<Rightarrow>
          (case make_scaffold_id src p scaffold strategy_new len default_chars of
             Inl e \<Rightarrow> Some (Inl e)
           | Inr (new_id, p') \<Rightarrow>
               if strategy_new = ''random'' then
                 (case regenerate src len existing_ids new_id p' of
                    None \<Rightarrow> None
                  | Some (Inl e) \<Rightarrow> Some (Inl e)
                  | Some (Inr (new_id', p'')) \<Rightarrow>
                      Some (Inr (PyStr new_id', insert new_id' existing_ids, p'')))
               else Some (Inr (PyStr new_id, insert new_id existing_ids, p'))))"

fun apply_get_or_make_id ::
  "rand_source \<Rightarrow> string \<Rightarrow> int \<Rightarrow> (pyval \<rightharpoonup> pyval) \<Rightarrow> string set \<Rightarrow> nat \<Rightarrow> pyval list
     \<Rightarrow> (error + (pyval list \<times> string set \<times> nat)) option" where
  "apply_get_or_make_id src strategy_new len mapping existing_ids p [] =
     Some (Inr ([], existing_ids, p))"
| "apply_get_or_make_id src strategy_new len mapping existing_ids p (s # rest) =
     (case get_or_make_id src strategy_new len mapping existing_ids p s of
        None \<Rightarrow> None
      | Some (Inl e) \<Rightarrow> Some (Inl e)
      | Some (Inr (i, ids', p')) \<Rightarrow>
          (case apply_get_or_make_id src strategy_new len mapping ids' p' rest of
             None \<Rightarrow> None
           | Some (Inl e) \<Rightarrow> Some (Inl e)
           | Some (Inr (is, ids'', p'')) \<Rightarrow> Some (Inr (i # is, ids'', p''))))"

definition extrapolate_ids ::
  "rand_source \<Rightarrow> nat \<Rightarrow> dataframe \<Rightarrow> dataframe \<Rightarrow> string \<Rightarrow> string \<Rightarrow> string \<Rightarrow> int
     \<Rightarrow> (error + (dataframe \<times> nat)) option" where
  "extrapolate_ids src p existing_df new_df scaffold_col id_col strategy_new len =
     (case map_of existing_df scaffold_col of
        None \<Rightarrow> Some (Inl (ValueError_column scaffold_col))
      | Some old_keys \<Rightarrow>
          (case map_of existing_df id_col of
             None \<Rightarrow> Some (Inl (ValueError_column id_col))
           | Some old_ids \<Rightarrow>
               (case map_of new_df scaffold_col of
                  None \<Rightarrow> Some (Inl (ValueError_column scaffold_col))
                | Some cells \<Rightarrow>
                    let mapping = dict_zip old_keys old_ids;
                        existing_ids = set (map py_str old_ids)
                    in (case apply_get_or_make_id src strategy_new len mapping existing_ids p cells of
                          None \<Rightarrow> None
                        | Some (Inl e) \<Rightarrow> Some (Inl e)
                        | Some (Inr (ids, used, p')) \<Rightarrow>
                            Some (Inr (AList.update id_col ids new_df, p'))))))"

subsection \<open>Concrete random sources\<close>

definition zero_source :: rand_source where
  "zero_source n = 0"

definition counting_source :: rand_source where
  "counting_source n = n"

definition halving_source :: rand_source where
  "halving_source n = n div 2"

subsection \<open>Notions used in the statements\<close>

text \<open>
  What \<^const>\<open>id_generator\<close> returns at position \<open>q\<close> when the alphabet is not empty
  (lemma \<open>id_generator_drawn\<close> below).
\<close>

definition drawn_id :: "rand_source \<Rightarrow> string \<Rightarrow> nat \<Rightarrow> nat \<Rightarrow> string" where
  "drawn_id src chars q n = map (\<lambda>i. chars ! (src (q + i) mod length chars)) [0..<n]"

text \<open>
  The candidates of the retry loop started with \<open>x\<close> at position \<open>p\<close>: \<open>x\<close> itself, then
  the identifiers of the successive calls of \<^const>\<open>id_generator\<close>.
\<close>

fun candidate :: "rand_source \<Rightarrow> int \<Rightarrow> string \<Rightarrow> nat \<Rightarrow> nat \<Rightarrow> string" where
  "candidate src len x p 0 = x"
| "candidate src len x p (Suc k) = drawn_id src default_chars (p + k * nat len) (nat len)"

text \<open>An identifier of \<open>len\<close> characters over the default alphabet.\<close>

definition id_shape :: "int \<Rightarrow> string \<Rightarrow> bool" where
  "id_shape len i = (length i = nat len \<and> set i \<subseteq> set default_chars)"

section \<open>The stable hash\<close>

subsection \<open>Shape of a stable identifier\<close>

lemma sha1_length: "length (sha1 m) = 20"
  by (simp add: sha1_def Let_def be_bytes32_def split: prod.splits)

lemma b32_alphabet_length: "length b32_alphabet = 32"
  by (simp add: b32_alphabet_def)

lemma b32_quantum_length: "length (b32_quantum q) = 8"
  by (simp add: b32_quantum_def Let_def)

lemma b32_quantum_set: "set (b32_quantum q) \<subseteq> set b32_alphabet"
proof -
  have "b32_alphabet ! (n mod 32) \<in> set b32_alphabet" for n
    by (rule nth_mem) (simp add: b32_alphabet_length)
  then show ?thesis
    by (auto simp: b32_quantum_def Let_def)
qed

lemma b32_quanta_length: "length (b32_quanta k s) = 8 * k"
  by (induction k arbitrary: s) (simp_all add: b32_quantum_length)

lemma b32_quanta_set: "set (b32_quanta k s) \<subseteq> set b32_alphabet"
proof (induction k arbitrary: s)
  case 0
  show ?case by simp
next
  case (Suc k)
  from Suc [of "drop 5 s"] b32_quantum_set [of "take 5 s"] show ?case by simp
qed

lemma b32encode_whole_quanta:
  "length s mod 5 = 0 \<Longrightarrow> b32encode s = b32_quanta (length s div 5) s"
  by (simp add: b32encode_def Let_def)

lemma b32encode_sha1: "b32encode (sha1 m) = b32_quanta 4 (sha1 m)"
  by (simp add: b32encode_whole_quanta sha1_length)

lemma b32encode_sha1_length: "length (b32encode (sha1 m)) = 32"
  by (simp add: b32encode_sha1 b32_quanta_length)

lemma b32encode_sha1_set: "set (b32encode (sha1 m)) \<subseteq> set b32_alphabet"
  by (simp add: b32encode_sha1 b32_quanta_set)

lemma py_rstrip_eq_id: "CHR ''='' \<notin> set s \<Longrightarrow> py_rstrip_eq s = s"
proof -
  assume a: "CHR ''='' \<notin> set s"
  have "dropWhile (\<lambda>c. c = CHR ''='') (rev s) = rev s"
    using a by (cases "rev s") auto
  then show ?thesis by (simp add: py_rstrip_eq_def)
qed

lemma no_pad_in_alphabet: "CHR ''='' \<notin> set b32_alphabet"
  by (simp add: b32_alphabet_def)

lemma hash_b32_slice:
  "hash_b32 t len = py_slice_to (b32encode (sha1 (encode_utf8 t))) len"
proof -
  have "CHR ''='' \<notin> set (b32encode (sha1 (encode_utf8 t)))"
    using b32encode_sha1_set [of "encode_utf8 t"] no_pad_in_alphabet by blast
  then show ?thesis by (simp add: hash_b32_def Let_def py_rstrip_eq_id)
qed

lemma hash_b32_length: "0 \<le> len \<Longrightarrow> length (hash_b32 t len) = min (nat len) 32"
  by (simp add: hash_b32_slice py_slice_to_def b32encode_sha1_length)

lemma hash_b32_set: "set (hash_b32 t len) \<subseteq> set b32_alphabet"
proof -
  have "set (hash_b32 t len) \<subseteq> set (b32encode (sha1 (encode_utf8 t)))"
    by (auto simp: hash_b32_slice py_slice_to_def dest: in_set_takeD)
  with b32encode_sha1_set [of "encode_utf8 t"] show ?thesis by blast
qed

subsection \<open>Four digests, computed\<close>

lemma expand_numeral:
  "expand (numeral n) ws =
     expand (pred_numeral n) (rotl32 1 (ws ! 2 XOR ws ! 7 XOR ws ! 13 XOR ws ! 15) # ws)"
  by (simp add: numeral_eq_Suc)

lemma blocks16_numeral:
  "blocks16 (numeral n) ws = take 16 ws # blocks16 (pred_numeral n) (drop 16 ws)"
  by (simp add: numeral_eq_Suc)

lemma b32_quanta_numeral:
  "b32_quanta (numeral n) s = b32_quantum (take 5 s) @ b32_quanta (pred_numeral n) (drop 5 s)"
  by (simp add: numeral_eq_Suc)

lemma replicate_numeral: "replicate (numeral n) x = x # replicate (pred_numeral n) x"
  by (simp add: numeral_eq_Suc)

lemma word_of_int_mod32: "(word_of_int (x mod 4294967296) :: 32 word) = word_of_int x"
proof -
  have e: "(4294967296 :: int) = 2 ^ 32" by simp
  show ?thesis
    unfolding e by (simp add: word_of_int_eq_iff take_bit_eq_mod)
qed

lemma reduce32:
  "\<not> (numeral k :: int) < 4294967296 \<Longrightarrow>
     (numeral k :: 32 word) = word_of_int (numeral k mod 4294967296)"
  using word_of_int_mod32 [of "numeral k"] by (simp only: of_int_numeral)

lemmas sha1_eval =
  sha1_pad_def encode_utf8_def encode_utf8_char_def be_bytes64_def schedule_def expand_numeral
  rotl32_def replicate_numeral upt_rec blocks16_numeral sha1_f_def sha1_k_def sha1_init_def
  be_bytes32_def sha1_def reduce32

lemmas b32_eval =
  b32encode_def b32_quantum_def b32_quanta_numeral from_bytes_big_def b32_alphabet_def

lemma digest_benzene:
  "b32encode (sha1 (encode_utf8 ''c1ccccc1'')) = ''QREAIMMBXGTLBIRTA5X6KCUALJTKUJCK''"
  by (simp add: sha1_eval b32_eval)

lemma digest_phenethylamine:
  "b32encode (sha1 (encode_utf8 ''NCCc1ccccc1'')) = ''6QLIISVSH4YTQPXNLNM3D2IRTKFOOPIX''"
  by (simp add: sha1_eval b32_eval)

lemma digest_empty:
  "b32encode (sha1 (encode_utf8 '''')) = ''3I42H3S6NNFQ2MSVX7XZKYAYSCX5QBYJ''"
  by (simp add: sha1_eval b32_eval)

lemma digest_sentinel:
  "b32encode (sha1 (encode_utf8 ''NA_SCAFFOLD'')) = ''YJN2E4GTV53GLYSQPNL3H2K7DISUEPRV''"
  by (simp add: sha1_eval b32_eval)

lemma py_strip_benzene: "py_strip ''c1ccccc1'' = ''c1ccccc1''"
  by (simp add: py_strip_def py_isspace_def)

lemma py_strip_phenethylamine: "py_strip ''NCCc1ccccc1'' = ''NCCc1ccccc1''"
  by (simp add: py_strip_def py_isspace_def)

lemma py_strip_sentinel: "py_strip ''NA_SCAFFOLD'' = ''NA_SCAFFOLD''"
  by (simp add: py_strip_def py_isspace_def)

lemma py_strip_blank: "py_strip ''   '' = ''''"
  by (simp add: py_strip_def py_isspace_def)

lemma py_strip_empty: "py_strip '''' = ''''"
  by (simp add: py_strip_def)

lemma make_scaffold_id_stable:
  "make_scaffold_id src p k ''stable'' len chars = Inr (hash_b32 (scaffold_key k) len, p)"
  by (simp add: make_scaffold_id_def)

subsection \<open>Determinism of the stable strategy\<close>

text \<open>
  C2. With strategy \<open>stable\<close>, \<^const>\<open>make_scaffold_id\<close> returns the hash of the key cut at
  the length, whatever the random source, the draws consumed so far and the alphabet are, and
  leaves the random state as it found it: the identifier is a function of key and length
  alone. On the keys \<open>c1ccccc1\<close>, \<open>c1ccccc1\<close>, \<open>NCCc1ccccc1\<close> with length 6,
  \<^const>\<open>assign_ids\<close> gives rows 1 and 2 the identifier \<open>QREAIM\<close> and row 3 the different
  identifier \<open>6QLIIS\<close>, in every run.
\<close>

theorem stable_id_deterministic:
  "make_scaffold_id src p k ''stable'' len chars = Inr (hash_b32 (scaffold_key k) len, p) \<and>
   assign_ids src p
     [(''scaffold_smiles'', [PyStr ''c1ccccc1'', PyStr ''c1ccccc1'', PyStr ''NCCc1ccccc1''])]
     ''scaffold_smiles'' ''scaffold_id'' ''stable'' 6
   = Some (Inr ([(''scaffold_smiles'',
                    [PyStr ''c1ccccc1'', PyStr ''c1ccccc1'', PyStr ''NCCc1ccccc1'']),
                 (''scaffold_id'', [PyStr ''QREAIM'', PyStr ''QREAIM'', PyStr ''6QLIIS''])], p)) \<and>
   ''QREAIM'' \<noteq> ''6QLIIS''"
proof -
  have a: "hash_b32 ''c1ccccc1'' 6 = ''QREAIM''"
    by (simp add: hash_b32_slice digest_benzene py_slice_to_def)
  have b: "hash_b32 ''NCCc1ccccc1'' 6 = ''6QLIIS''"
    by (simp add: hash_b32_slice digest_phenethylamine py_slice_to_def)
  show ?thesis
    by (simp add: assign_ids_def make_scaffold_id_stable scaffold_key_def
        py_strip_benzene py_strip_phenethylamine a b)
qed

subsection \<open>The sentinel\<close>

text \<open>
  C6. With strategy \<open>stable\<close> and length 8, the empty key and the blank key of three spaces
  both receive \<open>3I42H3S6\<close>, the hash of the empty string, while an absent key and the literal
  \<open>NA_SCAFFOLD\<close> both receive \<open>YJN2E4GT\<close>: an empty or blank string is stripped but not
  replaced by the sentinel, so the four identifiers are not all equal.
\<close>

theorem sentinel_equivalence_fails:
  "make_scaffold_id src p (PyStr '''') ''stable'' 8 chars = Inr (''3I42H3S6'', p) \<and>
   make_scaffold_id src p (PyStr ''   '') ''stable'' 8 chars = Inr (''3I42H3S6'', p) \<and>
   make_scaffold_id src p PyNone ''stable'' 8 chars = Inr (''YJN2E4GT'', p) \<and>
   make_scaffold_id src p (PyStr ''NA_SCAFFOLD'') ''stable'' 8 chars = Inr (''YJN2E4GT'', p) \<and>
   ''3I42H3S6'' \<noteq> ''YJN2E4GT''"
proof -
  have a: "hash_b32 '''' 8 = ''3I42H3S6''"
    by (simp add: hash_b32_slice digest_empty py_slice_to_def)
  have b: "hash_b32 ''NA_SCAFFOLD'' 8 = ''YJN2E4GT''"
    by (simp add: hash_b32_slice digest_sentinel py_slice_to_def)
  show ?thesis
    by (simp add: make_scaffold_id_stable scaffold_key_def py_strip_empty py_strip_blank
        py_strip_sentinel a b)
qed

section \<open>Random identifiers\<close>

subsection \<open>The generator and the retry loop\<close>


lemma drawn_id_Suc:
  "drawn_id src chars q (Suc n) = chars ! (src q mod length chars) # drawn_id src chars (Suc q) n"
proof -
  have "[0..<Suc n] = 0 # map Suc [0..<n]"
    by (simp add: upt_conv_Cons map_Suc_upt del: upt_Suc)
  then show ?thesis
    by (simp add: drawn_id_def o_def del: upt_Suc)
qed

lemma join_choices_drawn:
  "chars \<noteq> [] \<Longrightarrow> join_choices src p chars n = Inr (drawn_id src chars p n, p + n)"
proof (induction n arbitrary: p)
  case 0
  show ?case by (simp add: drawn_id_def)
next
  case (Suc n)
  from Suc.prems Suc.IH [of "Suc p"] show ?case
    by (simp add: random_choice_def drawn_id_Suc)
qed

lemma id_generator_drawn:
  "chars \<noteq> [] \<Longrightarrow>
     id_generator src p len chars = Inr (drawn_id src chars p (nat len), p + nat len)"
  by (simp add: id_generator_def join_choices_drawn)

lemma drawn_id_length: "length (drawn_id src chars q n) = n"
  by (simp add: drawn_id_def)

lemma drawn_id_set: "chars \<noteq> [] \<Longrightarrow> set (drawn_id src chars q n) \<subseteq> set chars"
  by (auto simp: drawn_id_def)

lemma default_chars_nonempty: "default_chars \<noteq> []"
  by (simp add: default_chars_def)


lemma drawn_default_shape:
  "length (drawn_id src default_chars q n) = n \<and> set (drawn_id src default_chars q n) \<subseteq> set default_chars"
  using drawn_id_set [OF default_chars_nonempty] by (simp add: drawn_id_length)

lemma regenerate_sound:
  assumes "regenerate src len seen x p = Some r"
  shows "\<exists>i p'. r = Inr (i, p') \<and> i \<notin> seen \<and>
       (i = x \<or> (length i = nat len \<and> set i \<subseteq> set default_chars))"
proof (rule regenerate.raw_induct
    [where P = "\<lambda>src len seen x p r. \<exists>i p'. r = Inr (i, p') \<and> i \<notin> seen \<and>
       (i = x \<or> (length i = nat len \<and> set i \<subseteq> set default_chars))", OF _ assms])
  fix loop :: "rand_source \<Rightarrow> int \<Rightarrow> string set \<Rightarrow> string \<Rightarrow> nat \<Rightarrow> (error + (string \<times> nat)) option"
  fix src len seen new_id p y
  assume IH: "\<And>src len seen new_id p y. loop src len seen new_id p = Some y \<Longrightarrow>
      \<exists>i p'. y = Inr (i, p') \<and> i \<notin> seen \<and>
       (i = new_id \<or> (length i = nat len \<and> set i \<subseteq> set default_chars))"
  assume eq: "(if new_id \<in> seen
      then case id_generator src p len default_chars of Inl e \<Rightarrow> Some (Inl e)
           | Inr (c, p') \<Rightarrow> loop src len seen c p'
      else Some (Inr (new_id, p))) = Some y"
  show "\<exists>i p'. y = Inr (i, p') \<and> i \<notin> seen \<and>
       (i = new_id \<or> (length i = nat len \<and> set i \<subseteq> set default_chars))"
  proof (cases "new_id \<in> seen")
    case True
    let ?c = "drawn_id src default_chars p (nat len)"
    from True eq have "loop src len seen ?c (p + nat len) = Some y"
      by (simp add: id_generator_drawn [OF default_chars_nonempty])
    from IH [OF this] obtain i p' where
      "y = Inr (i, p')" "i \<notin> seen" "i = ?c \<or> (length i = nat len \<and> set i \<subseteq> set default_chars)"
      by blast
    with drawn_default_shape [of src p "nat len"] show ?thesis by auto
  next
    case False
    with eq show ?thesis by auto
  qed
qed


lemma regenerate_unfold_seen:
  "x \<in> seen \<Longrightarrow>
     regenerate src len seen x p =
       regenerate src len seen (drawn_id src default_chars p (nat len)) (p + nat len)"
  by (subst regenerate.simps) (simp add: id_generator_drawn [OF default_chars_nonempty])

lemma regenerate_unfold_fresh:
  "x \<notin> seen \<Longrightarrow> regenerate src len seen x p = Some (Inr (x, p))"
  by (subst regenerate.simps) simp

lemma candidate_shift:
  "candidate src len (drawn_id src default_chars p (nat len)) (p + nat len) k =
     candidate src len x p (Suc k)"
  by (cases k) (simp_all add: algebra_simps)

lemma regenerate_returns:
  "candidate src len x p k \<notin> seen \<Longrightarrow> (\<forall>j<k. candidate src len x p j \<in> seen) \<Longrightarrow>
     regenerate src len seen x p = Some (Inr (candidate src len x p k, p + k * nat len))"
proof (induction k arbitrary: x p)
  case 0
  then show ?case by (simp add: regenerate_unfold_fresh)
next
  case (Suc k)
  let ?c = "drawn_id src default_chars p (nat len)"
  from Suc.prems(2) have x: "x \<in> seen" by force
  have a: "candidate src len ?c (p + nat len) k \<notin> seen"
    using Suc.prems(1) by (metis candidate_shift)
  have b: "\<forall>j<k. candidate src len ?c (p + nat len) j \<in> seen"
  proof (intro allI impI)
    fix j assume "j < k"
    then have "Suc j < Suc k" by simp
    with Suc.prems(2) have "candidate src len x p (Suc j) \<in> seen" by blast
    then show "candidate src len ?c (p + nat len) j \<in> seen"
      by (metis candidate_shift)
  qed
  from Suc.IH [OF a b] show ?case
    by (simp add: regenerate_unfold_seen [OF x] candidate_shift [of src len p k x] algebra_simps
        del: candidate.simps)
qed

lemma regenerate_Some_candidate:
  assumes "regenerate src len seen x p = Some r"
  shows "\<exists>k. candidate src len x p k \<notin> seen"
proof (rule regenerate.raw_induct
    [where P = "\<lambda>src len seen x p r. \<exists>k. candidate src len x p k \<notin> seen", OF _ assms])
  fix loop :: "rand_source \<Rightarrow> int \<Rightarrow> string set \<Rightarrow> string \<Rightarrow> nat \<Rightarrow> (error + (string \<times> nat)) option"
  fix src len seen new_id p y
  assume IH: "\<And>src len seen new_id p y. loop src len seen new_id p = Some y \<Longrightarrow>
      \<exists>k. candidate src len new_id p k \<notin> seen"
  assume eq: "(if new_id \<in> seen
      then case id_generator src p len default_chars of Inl e \<Rightarrow> Some (Inl e)
           | Inr (c, p') \<Rightarrow> loop src len seen c p'
      else Some (Inr (new_id, p))) = Some y"
  show "\<exists>k. candidate src len new_id p k \<notin> seen"
  proof (cases "new_id \<in> seen")
    case True
    let ?c = "drawn_id src default_chars p (nat len)"
    from True eq have "loop src len seen ?c (p + nat len) = Some y"
      by (simp add: id_generator_drawn [OF default_chars_nonempty])
    from IH [OF this] obtain k where "candidate src len ?c (p + nat len) k \<notin> seen" ..
    then have "candidate src len new_id p (Suc k) \<notin> seen"
      by (metis candidate_shift)
    then show ?thesis ..
  next
    case False
    then have "candidate src len new_id p 0 \<notin> seen" by simp
    then show ?thesis ..
  qed
qed

lemma regenerate_diverges:
  "(\<forall>k. candidate src len x p k \<in> seen) \<Longrightarrow> regenerate src len seen x p = None"
  using regenerate_Some_candidate [of src len seen x p] by (cases "regenerate src len seen x p") auto


lemma drawn_id_shape: "id_shape len (drawn_id src default_chars q (nat len))"
  using drawn_default_shape [of src q "nat len"] by (simp add: id_shape_def)

lemma ensure_unique_sound:
  assumes "ensure_unique src len seen p x = Some r"
  shows "\<exists>i p'. r = Inr (i, insert i seen, p') \<and> i \<notin> seen \<and> (i = x \<or> id_shape len i)"
proof (cases "x \<in> seen")
  case False
  with assms show ?thesis by (auto simp: ensure_unique_def)
next
  case True
  with assms obtain r' where r': "regenerate src len seen x p = Some r'"
    by (auto simp: ensure_unique_def split: option.splits)
  from regenerate_sound [OF r'] obtain i p' where
    i: "r' = Inr (i, p')" "i \<notin> seen" "i = x \<or> (length i = nat len \<and> set i \<subseteq> set default_chars)"
    by blast
  with True assms r' show ?thesis
    by (auto simp: ensure_unique_def id_shape_def)
qed

lemma apply_ensure_unique_sound:
  "apply_ensure_unique src len seen p xs = Some r \<Longrightarrow>
     \<exists>ids seen' p'. r = Inr (ids, seen', p') \<and> length ids = length xs \<and> distinct ids \<and>
        set ids \<inter> seen = {} \<and> seen' = seen \<union> set ids \<and>
        (\<forall>i\<in>set ids. i \<in> set xs \<or> id_shape len i)"
proof (induction xs arbitrary: seen p r)
  case Nil
  then show ?case by auto
next
  case (Cons x xs)
  from Cons.prems obtain r1 where r1: "ensure_unique src len seen p x = Some r1"
    by (auto split: option.splits)
  from ensure_unique_sound [OF r1] obtain i p1 where
    i: "r1 = Inr (i, insert i seen, p1)" "i \<notin> seen" "i = x \<or> id_shape len i"
    by blast
  from Cons.prems r1 i(1) obtain r2 where
    r2: "apply_ensure_unique src len (insert i seen) p1 xs = Some r2"
    by (auto split: option.splits)
  from Cons.IH [OF r2] obtain ids seen' p' where
    t: "r2 = Inr (ids, seen', p')" "length ids = length xs" "distinct ids"
       "set ids \<inter> insert i seen = {}" "seen' = insert i seen \<union> set ids"
       "\<forall>j\<in>set ids. j \<in> set xs \<or> id_shape len j"
    by blast
  from Cons.prems r1 i(1) r2 t(1) have r: "r = Inr (i # ids, seen', p')"
    by simp
  from i t show ?case unfolding r by auto
qed

lemma make_scaffold_id_random:
  "make_scaffold_id src p k ''random'' len default_chars =
     Inr (drawn_id src default_chars p (nat len), p + nat len)"
  by (simp add: make_scaffold_id_def id_generator_drawn [OF default_chars_nonempty])

lemma apply_make_scaffold_id_random:
  "\<exists>ids. apply_make_scaffold_id src p ''random'' len cells =
            Inr (ids, p + length cells * nat len) \<and>
         length ids = length cells \<and> (\<forall>i\<in>set ids. id_shape len i)"
proof (induction cells arbitrary: p)
  case Nil
  show ?case by simp
next
  case (Cons c cells)
  from Cons [of "p + nat len"] obtain ids where
    "apply_make_scaffold_id src (p + nat len) ''random'' len cells =
       Inr (ids, p + nat len + length cells * nat len)"
    "length ids = length cells" "\<forall>i\<in>set ids. id_shape len i"
    by blast
  then show ?case
    by (simp add: make_scaffold_id_random drawn_id_shape algebra_simps)
qed

lemma assign_ids_random_sound:
  assumes col: "map_of df scaffold_col = Some cells"
    and ret: "assign_ids src p df scaffold_col id_col ''random'' len = Some r"
  shows "\<exists>ids p'. r = Inr (AList.update id_col (map PyStr ids) df, p') \<and>
           length ids = length cells \<and> distinct ids \<and> (\<forall>i\<in>set ids. id_shape len i)"
proof -
  from apply_make_scaffold_id_random [of src p len cells] obtain ids0 where
    f: "apply_make_scaffold_id src p ''random'' len cells = Inr (ids0, p + length cells * nat len)"
       "length ids0 = length cells" "\<forall>i\<in>set ids0. id_shape len i"
    by blast
  from ret col f(1) obtain r2 where
    r2: "apply_ensure_unique src len {} (p + length cells * nat len) ids0 = Some r2"
    by (auto simp: assign_ids_def split: option.splits)
  from apply_ensure_unique_sound [OF r2] obtain ids seen' p' where
    t: "r2 = Inr (ids, seen', p')" "length ids = length ids0" "distinct ids"
       "\<forall>i\<in>set ids. i \<in> set ids0 \<or> id_shape len i"
    by blast
  from ret col f(1) r2 t(1) have "r = Inr (AList.update id_col (map PyStr ids) df, p')"
    by (simp add: assign_ids_def)
  with t f show ?thesis by auto
qed


lemma default_chars_card: "card (set default_chars) = 36"
proof -
  have "distinct default_chars" by (simp add: default_chars_def)
  then have "card (set default_chars) = length default_chars" by (rule distinct_card)
  then show ?thesis by (simp add: default_chars_def)
qed

lemma id_shape_card:
  "finite {i. id_shape len i} \<and> card {i. id_shape len i} = 36 ^ nat len"
proof -
  have e: "{i. id_shape len i} = {xs. set xs \<subseteq> set default_chars \<and> length xs = nat len}"
    by (auto simp: id_shape_def)
  show ?thesis
    unfolding e
    by (simp add: finite_lists_length_eq card_lists_length_eq default_chars_card)
qed

lemma assign_ids_random_bound:
  assumes col: "map_of df scaffold_col = Some cells"
    and ret: "assign_ids src p df scaffold_col id_col ''random'' len = Some r"
  shows "length cells \<le> 36 ^ nat len"
proof -
  from assign_ids_random_sound [OF col ret] obtain ids where
    t: "length ids = length cells" "distinct ids" "\<forall>i\<in>set ids. id_shape len i"
    by blast
  from t(3) have "set ids \<subseteq> {i. id_shape len i}" by blast
  then have "card (set ids) \<le> card {i. id_shape len i}"
    using id_shape_card [of len] card_mono [of "{i. id_shape len i}" "set ids"] by simp
  with t(1,2) id_shape_card [of len] show ?thesis
    by (simp add: distinct_card)
qed

text \<open>
  The claim C3 as stated fails: with length 1 there are 36 identifiers, so a frame of 37
  rows cannot receive 37 different ones, and the call never returns, whatever the random
  source draws (lemma \<open>assign_ids_random_bound\<close>).
\<close>

theorem batch_uniqueness_counterexample:
  "assign_ids zero_source 0 [(''scaffold_smiles'', replicate 37 (PyStr ''c1ccccc1''))]
     ''scaffold_smiles'' ''scaffold_id'' ''random'' 1 = None"
proof (rule ccontr)
  assume "assign_ids zero_source 0 [(''scaffold_smiles'', replicate 37 (PyStr ''c1ccccc1''))]
     ''scaffold_smiles'' ''scaffold_id'' ''random'' 1 \<noteq> None"
  then obtain r where r: "assign_ids zero_source 0
      [(''scaffold_smiles'', replicate 37 (PyStr ''c1ccccc1''))]
      ''scaffold_smiles'' ''scaffold_id'' ''random'' 1 = Some r"
    by blast
  have col: "map_of [(''scaffold_smiles'', replicate 37 (PyStr ''c1ccccc1''))] ''scaffold_smiles''
      = Some (replicate 37 (PyStr ''c1ccccc1''))"
    by simp
  from assign_ids_random_bound [OF col r] show False by simp
qed

text \<open>
  C3 (amended). Whenever \<^const>\<open>assign_ids\<close> with strategy \<open>random\<close> returns on a frame
  of \<open>N\<close> rows, it returns the frame with \<open>N\<close> pairwise distinct identifiers in the
  identifier column, and \<open>N\<close> is at most \<open>36 ^ length\<close>.
\<close>

theorem batch_uniqueness_when_returning:
  assumes "map_of df scaffold_col = Some cells"
    and "assign_ids src p df scaffold_col id_col ''random'' len = Some r"
  shows "\<exists>ids p'. r = Inr (AList.update id_col (map PyStr ids) df, p') \<and>
           length ids = length cells \<and> distinct ids \<and> length cells \<le> 36 ^ nat len"
  using assign_ids_random_sound [OF assms] assign_ids_random_bound [OF assms] by blast

lemma default_chars_length: "length default_chars = 36"
  by (simp add: default_chars_def)

lemma default_chars_nth_0: "default_chars ! 0 = CHR ''A''"
  by (simp add: default_chars_def)

lemma default_chars_nth_1: "default_chars ! Suc 0 = CHR ''B''"
  by (simp add: default_chars_def)

lemma halving_run:
  "assign_ids halving_source 0 [(''scaffold_smiles'', [PyStr ''c1ccccc1'', PyStr ''c1ccccc1''])]
     ''scaffold_smiles'' ''scaffold_id'' ''random'' 1
   = Some (Inr ([(''scaffold_smiles'', [PyStr ''c1ccccc1'', PyStr ''c1ccccc1'']),
                 (''scaffold_id'', [PyStr ''A'', PyStr ''B''])], 3))"
  by (simp add: assign_ids_def make_scaffold_id_random drawn_id_def halving_source_def
      default_chars_length default_chars_nth_0 default_chars_nth_1
      ensure_unique_def regenerate_unfold_seen regenerate_unfold_fresh)

theorem batch_uniqueness_witness:
  "map_of [(''scaffold_smiles'', [PyStr ''c1ccccc1'', PyStr ''c1ccccc1''])] ''scaffold_smiles''
     = Some [PyStr ''c1ccccc1'', PyStr ''c1ccccc1''] \<and>
   assign_ids halving_source 0 [(''scaffold_smiles'', [PyStr ''c1ccccc1'', PyStr ''c1ccccc1''])]
     ''scaffold_smiles'' ''scaffold_id'' ''random'' 1
   = Some (Inr ([(''scaffold_smiles'', [PyStr ''c1ccccc1'', PyStr ''c1ccccc1'']),
                 (''scaffold_id'', [PyStr ''A'', PyStr ''B''])], 3)) \<and>
   distinct [''A'', ''B''] \<and> length [PyStr ''c1ccccc1'', PyStr ''c1ccccc1''] \<le> 36 ^ nat 1"
  using batch_uniqueness_when_returning
    [of "[(''scaffold_smiles'', [PyStr ''c1ccccc1'', PyStr ''c1ccccc1''])]" "''scaffold_smiles''"
        "[PyStr ''c1ccccc1'', PyStr ''c1ccccc1'']" halving_source 0 "''scaffold_id''" 1, OF _ halving_run]
  by (simp add: halving_run)

subsection \<open>The retry loop has no bound\<close>

lemma regenerate_exhausted:
  assumes "x \<in> seen" and "{i. id_shape len i} \<subseteq> seen"
  shows "regenerate src len seen x p = None"
proof (rule regenerate_diverges, rule allI)
  fix k
  show "candidate src len x p k \<in> seen"
  proof (cases k)
    case 0
    with assms(1) show ?thesis by simp
  next
    case (Suc j)
    with assms(2) drawn_id_shape [of len src "p + j * nat len"] show ?thesis by auto
  qed
qed

lemma single_char_ids: "{i. id_shape 1 i} \<subseteq> (\<lambda>c. [c]) ` set default_chars"
  by (auto simp: id_shape_def length_Suc_conv)

text \<open>
  The claim C9 as stated fails: once the 36 identifiers of length 1 are all in use, the
  loop of \<^const>\<open>ensure_unique\<close> neither returns nor raises, whatever the random source
  draws.
\<close>

theorem retry_unbounded_counterexample:
  "ensure_unique zero_source 1 ((\<lambda>c. [c]) ` set default_chars) 0 ''A'' = None"
proof -
  have a: "''A'' \<in> (\<lambda>c. [c]) ` set default_chars"
    by (simp add: default_chars_def)
  from regenerate_exhausted [OF a single_char_ids] a show ?thesis
    by (simp add: ensure_unique_def)
qed

text \<open>
  C9 (amended). The retry loop has no bound on its attempts and no failure of its own: it
  returns the first candidate that lies outside the used set, after as many redraws as it
  takes, and it runs forever when every candidate lies in the used set.
\<close>

theorem retry_loop_characterisation:
  "(candidate src len x p k \<notin> seen \<longrightarrow> (\<forall>j<k. candidate src len x p j \<in> seen) \<longrightarrow>
      regenerate src len seen x p = Some (Inr (candidate src len x p k, p + k * nat len))) \<and>
   ((\<forall>k. candidate src len x p k \<in> seen) \<longrightarrow> regenerate src len seen x p = None)"
  using regenerate_returns [of src len x p k seen] regenerate_diverges [of src len x p seen]
  by blast

lemma zero_source_candidates: "candidate zero_source 1 ''A'' 0 k = ''A''"
  by (cases k) (simp_all add: drawn_id_def zero_source_def default_chars_nth_0)

theorem retry_loop_witness:
  "regenerate halving_source 1 {''A''} ''A'' 2 = Some (Inr (''B'', 3)) \<and>
   regenerate zero_source 1 {''A''} ''A'' 0 = None"
proof -
  have c1: "candidate halving_source 1 ''A'' 2 1 = ''B''"
    by (simp add: drawn_id_def halving_source_def default_chars_length default_chars_nth_1)
  have a: "candidate halving_source 1 ''A'' 2 1 \<notin> {''A''}"
    unfolding c1 by simp
  have b: "\<forall>j<1. candidate halving_source 1 ''A'' 2 j \<in> {''A''}"
    by simp
  have c: "\<forall>k. candidate zero_source 1 ''A'' 0 k \<in> {''A''}"
    by (simp add: zero_source_candidates)
  from retry_loop_characterisation [of halving_source 1 "''A''" 2 1 "{''A''}"] a b
  have "regenerate halving_source 1 {''A''} ''A'' 2 = Some (Inr (''B'', 3))"
    unfolding c1 by simp
  moreover from retry_loop_characterisation [of zero_source 1 "''A''" 0 0 "{''A''}"] c
  have "regenerate zero_source 1 {''A''} ''A'' 0 = None"
    by blast
  ultimately show ?thesis by simp
qed

subsection \<open>Length and alphabet of an identifier\<close>

lemma b32_alphabet_default: "set b32_alphabet \<subseteq> set default_chars"
  by (simp add: b32_alphabet_def default_chars_def)

text \<open>
  The claim C10 as stated fails: the Base32 text of a SHA-1 digest has 32 characters, so a
  stable identifier asked for with length 33 has 32.
\<close>

theorem length_contract_counterexample:
  "make_scaffold_id zero_source 0 (PyStr ''c1ccccc1'') ''stable'' 33 default_chars
     = Inr (''QREAIMMBXGTLBIRTA5X6KCUALJTKUJCK'', 0) \<and>
   length ''QREAIMMBXGTLBIRTA5X6KCUALJTKUJCK'' \<noteq> 33"
  by (simp add: make_scaffold_id_stable scaffold_key_def py_strip_benzene hash_b32_slice
      digest_benzene py_slice_to_def)

text \<open>
  C10 (amended). For a positive length, a stable identifier has \<open>min length 32\<close>
  characters, all from the Base32 alphabet; with a non-empty alphabet a random identifier
  has exactly \<open>length\<close> characters, all from that alphabet.
\<close>

theorem identifier_shape:
  assumes "0 < len" and "chars \<noteq> []"
  shows "(\<exists>i. make_scaffold_id src p k ''stable'' len chars = Inr (i, p) \<and>
            length i = min (nat len) 32 \<and> set i \<subseteq> set b32_alphabet) \<and>
         (\<exists>i. make_scaffold_id src p k ''random'' len chars = Inr (i, p + nat len) \<and>
            length i = nat len \<and> set i \<subseteq> set chars) \<and>
         (\<exists>i. id_generator src p len chars = Inr (i, p + nat len) \<and>
            length i = nat len \<and> set i \<subseteq> set chars)"
proof -
  from assms(1) have "0 \<le> len" by simp
  then have s: "length (hash_b32 (scaffold_key k) len) = min (nat len) 32"
    by (rule hash_b32_length)
  have r: "make_scaffold_id src p k ''random'' len chars = id_generator src p len chars"
    by (simp add: make_scaffold_id_def)
  show ?thesis
    using s hash_b32_set [of "scaffold_key k" len] drawn_id_set [OF assms(2), of src p "nat len"]
    by (simp add: make_scaffold_id_stable r id_generator_drawn [OF assms(2)] drawn_id_length)
qed

theorem identifier_shape_witness:
  "(0::int) < 6 \<and> default_chars \<noteq> [] \<and>
   (\<exists>i. make_scaffold_id counting_source 0 (PyStr ''c1ccccc1'') ''stable'' 6 default_chars
           = Inr (i, 0) \<and> length i = min (nat 6) 32 \<and> set i \<subseteq> set b32_alphabet) \<and>
   (\<exists>i. make_scaffold_id counting_source 0 (PyStr ''c1ccccc1'') ''random'' 6 default_chars
           = Inr (i, 0 + nat 6) \<and> length i = nat 6 \<and> set i \<subseteq> set default_chars) \<and>
   (\<exists>i. id_generator counting_source 0 6 default_chars = Inr (i, 0 + nat 6) \<and>
           length i = nat 6 \<and> set i \<subseteq> set default_chars)"
proof -
  have a: "(0::int) < 6" by simp
  from identifier_shape [OF a default_chars_nonempty, of counting_source 0 "PyStr ''c1ccccc1''"]
    a default_chars_nonempty
  show ?thesis by blast
qed

section \<open>Unknown strategies\<close>

lemma make_scaffold_id_unknown:
  "strategy \<noteq> ''stable'' \<Longrightarrow> strategy \<noteq> ''random'' \<Longrightarrow>
     make_scaffold_id src p k strategy len chars = Inl ValueError_strategy"
  by (simp add: make_scaffold_id_def)

text \<open>
  The claim C8 as stated fails on an empty frame: the strategy is only checked inside
  \<^const>\<open>make_scaffold_id\<close>, which is called once per row, so with no rows an unknown
  strategy goes unnoticed and the frame comes back with an empty identifier column.
\<close>

theorem configuration_error_counterexample:
  "assign_ids zero_source 0 [(''scaffold_smiles'', [])] ''scaffold_smiles'' ''scaffold_id''
     ''fastest'' 8
   = Some (Inr ([(''scaffold_smiles'', []), (''scaffold_id'', [])], 0))"
  by (simp add: assign_ids_def)

text \<open>
  C8 (amended). For a frame that has the key column and an unknown strategy,
  \<^const>\<open>assign_ids\<close> raises the strategy error at the first row and returns no frame when
  there is at least one row; with no rows it raises nothing and returns the frame with an
  empty identifier column.
\<close>

theorem unknown_strategy_rejected:
  assumes "strategy \<noteq> ''stable''" and "strategy \<noteq> ''random''"
    and "map_of df scaffold_col = Some cells"
  shows "(cells \<noteq> [] \<longrightarrow>
            assign_ids src p df scaffold_col id_col strategy len = Some (Inl ValueError_strategy)) \<and>
         (cells = [] \<longrightarrow>
            assign_ids src p df scaffold_col id_col strategy len
              = Some (Inr (AList.update id_col [] df, p)))"
proof (cases cells)
  case Nil
  with assms show ?thesis by (simp add: assign_ids_def)
next
  case (Cons c cs)
  with assms show ?thesis by (simp add: assign_ids_def make_scaffold_id_unknown)
qed

theorem unknown_strategy_witness:
  "''fastest'' \<noteq> ''stable'' \<and> ''fastest'' \<noteq> ''random'' \<and>
   assign_ids zero_source 0 [(''scaffold_smiles'', [PyStr ''c1ccccc1''])]
     ''scaffold_smiles'' ''scaffold_id'' ''fastest'' 8 = Some (Inl ValueError_strategy) \<and>
   assign_ids zero_source 0 [(''scaffold_smiles'', [])]
     ''scaffold_smiles'' ''scaffold_id'' ''fastest'' 8
     = Some (Inr (AList.update ''scaffold_id'' [] [(''scaffold_smiles'', [])], 0))"
proof -
  have a: "''fastest'' \<noteq> ''stable''" and b: "''fastest'' \<noteq> ''random''" by simp_all
  have c: "map_of [(''scaffold_smiles'', [PyStr ''c1ccccc1''])] ''scaffold_smiles''
             = Some [PyStr ''c1ccccc1'']" by simp
  have d: "map_of [(''scaffold_smiles'', [])] ''scaffold_smiles'' = Some ([] :: pyval list)"
    by simp
  from unknown_strategy_rejected [OF a b c, of zero_source 0 "''scaffold_id''" 8]
    unknown_strategy_rejected [OF a b d, of zero_source 0 "''scaffold_id''" 8] a b
  show ?thesis by simp
qed

section \<open>Extrapolation\<close>

subsection \<open>Lookups that find their key\<close>

lemma get_or_make_id_present:
  "mapping s = Some v \<Longrightarrow>
     get_or_make_id src strategy len mapping used p s = Some (Inr (v, used, p))"
  by (simp add: get_or_make_id_def)

lemma apply_get_or_make_id_length:
  "apply_get_or_make_id src strategy len mapping used p cells = Some (Inr (ids, used', p')) \<Longrightarrow>
     length ids = length cells"
proof (induction cells arbitrary: used p ids)
  case Nil
  then show ?case by simp
next
  case (Cons c cells)
  then show ?case
    by (auto split: option.splits sum.splits)
qed

lemma apply_get_or_make_id_present:
  "apply_get_or_make_id src strategy len mapping used p cells = Some (Inr (ids, used', p')) \<Longrightarrow>
     i < length cells \<Longrightarrow> mapping (cells ! i) = Some v \<Longrightarrow> ids ! i = v"
proof (induction cells arbitrary: used p ids i)
  case Nil
  then show ?case by simp
next
  case (Cons c cells)
  from Cons.prems(1) obtain a used1 p1 rest where
    h: "get_or_make_id src strategy len mapping used p c = Some (Inr (a, used1, p1))"
    and t: "apply_get_or_make_id src strategy len mapping used1 p1 cells
              = Some (Inr (rest, used', p'))"
    and ids: "ids = a # rest"
    by (auto split: option.splits sum.splits)
  show ?case
  proof (cases i)
    case 0
    with Cons.prems(3) have "mapping c = Some v" by simp
    then have "get_or_make_id src strategy len mapping used p c = Some (Inr (v, used, p))"
      by (rule get_or_make_id_present)
    with h ids 0 show ?thesis by simp
  next
    case (Suc j)
    with Cons.prems(2,3) have "j < length cells" "mapping (cells ! j) = Some v" by simp_all
    from Cons.IH [OF t this] ids Suc show ?thesis by simp
  qed
qed

lemma apply_get_or_make_id_all_present:
  "set cells \<subseteq> dom mapping \<Longrightarrow>
     apply_get_or_make_id src strategy len mapping used p cells
       = Some (Inr (map (\<lambda>c. the (mapping c)) cells, used, p))"
proof (induction cells)
  case Nil
  show ?case by simp
next
  case (Cons c cells)
  from Cons.prems obtain v where v: "mapping c = Some v" by auto
  from Cons.prems have "set cells \<subseteq> dom mapping" by simp
  from Cons.IH [OF this] v show ?case
    by (simp add: get_or_make_id_present)
qed

lemma dict_zip_single: "dict_zip [k] [v] = [k \<mapsto> v]"
  by (simp add: dict_zip_def)

subsection \<open>The lookup uses the raw key\<close>

lemma get_or_make_id_stable_new:
  "mapping s = None \<Longrightarrow>
     get_or_make_id src ''stable'' len mapping used p s
       = Some (Inr (PyStr (hash_b32 (scaffold_key s) len),
                    insert (hash_b32 (scaffold_key s) len) used, p))"
  by (simp add: get_or_make_id_def make_scaffold_id_stable)

lemma py_strip_padded_benzene: "py_strip '' c1ccccc1'' = ''c1ccccc1''"
  by (simp add: py_strip_def py_isspace_def)

lemma hash_benzene_8: "hash_b32 ''c1ccccc1'' 8 = ''QREAIMMB''"
  by (simp add: hash_b32_slice digest_benzene py_slice_to_def)

text \<open>
  The claim C7 as stated fails: the key \<open>" c1ccccc1"\<close> normalises to \<open>c1ccccc1\<close>, which the
  registry maps to \<open>AB12CD\<close>, yet the row is looked up by its raw key, is not found, and
  receives the new identifier \<open>QREAIMMB\<close>, which is added to the used set.
\<close>

theorem lookup_not_normalised_counterexample:
  "scaffold_key (PyStr '' c1ccccc1'') = ''c1ccccc1'' \<and>
   get_or_make_id zero_source ''stable'' 8 (dict_zip [PyStr ''c1ccccc1''] [PyStr ''AB12CD''])
     {''AB12CD''} 0 (PyStr '' c1ccccc1'')
     = Some (Inr (PyStr ''QREAIMMB'', {''QREAIMMB'', ''AB12CD''}, 0)) \<and>
   extrapolate_ids zero_source 0
     [(''scaffold_smiles'', [PyStr ''c1ccccc1'']), (''scaffold_id'', [PyStr ''AB12CD''])]
     [(''scaffold_smiles'', [PyStr '' c1ccccc1''])]
     ''scaffold_smiles'' ''scaffold_id'' ''stable'' 8
   = Some (Inr ([(''scaffold_smiles'', [PyStr '' c1ccccc1'']),
                 (''scaffold_id'', [PyStr ''QREAIMMB''])], 0))"
  by (simp add: extrapolate_ids_def dict_zip_single get_or_make_id_stable_new scaffold_key_def
      py_strip_padded_benzene hash_benzene_8)

subsection \<open>Identifiers made for unseen keys\<close>

lemma get_or_make_id_random_new:
  assumes "mapping s = None"
    and "get_or_make_id src ''random'' len mapping used p s = Some (Inr (a, used1, p1))"
  shows "\<exists>t. a = PyStr t \<and> t \<notin> used \<and> used1 = insert t used"
proof -
  let ?c = "drawn_id src default_chars p (nat len)"
  from assms obtain r where r: "regenerate src len used ?c (p + nat len) = Some r"
    by (auto simp: get_or_make_id_def make_scaffold_id_random split: option.splits)
  from regenerate_sound [OF r] obtain t q where t: "r = Inr (t, q)" "t \<notin> used" by blast
  with assms r show ?thesis
    by (auto simp: get_or_make_id_def make_scaffold_id_random)
qed

lemma get_or_make_id_used_grows:
  "get_or_make_id src strategy len mapping used p s = Some (Inr (a, used1, p1)) \<Longrightarrow>
     used \<subseteq> used1"
  by (auto simp: get_or_make_id_def split: option.splits sum.splits if_splits)

lemma apply_get_or_make_id_random_new:
  "apply_get_or_make_id src ''random'' len mapping used p cells = Some (Inr (ids, used', p')) \<Longrightarrow>
     i < length cells \<Longrightarrow> mapping (cells ! i) = None \<Longrightarrow>
     \<exists>t. ids ! i = PyStr t \<and> t \<notin> used"
proof (induction cells arbitrary: used p ids i)
  case Nil
  then show ?case by simp
next
  case (Cons c cells)
  from Cons.prems(1) obtain a used1 p1 rest where
    h: "get_or_make_id src ''random'' len mapping used p c = Some (Inr (a, used1, p1))"
    and t: "apply_get_or_make_id src ''random'' len mapping used1 p1 cells
              = Some (Inr (rest, used', p'))"
    and ids: "ids = a # rest"
    by (auto split: option.splits sum.splits)
  show ?case
  proof (cases i)
    case 0
    with Cons.prems(3) have "mapping c = None" by simp
    from get_or_make_id_random_new [OF this h] ids 0 show ?thesis by auto
  next
    case (Suc j)
    with Cons.prems(2,3) have "j < length cells" "mapping (cells ! j) = None" by simp_all
    from Cons.IH [OF t this] obtain u where "rest ! j = PyStr u" "u \<notin> used1" by blast
    with get_or_make_id_used_grows [OF h] ids Suc show ?thesis by auto
  qed
qed

lemma apply_get_or_make_id_random_distinct:
  "apply_get_or_make_id src ''random'' len mapping used p cells = Some (Inr (ids, used', p')) \<Longrightarrow>
     i < j \<Longrightarrow> j < length cells \<Longrightarrow> mapping (cells ! i) = None \<Longrightarrow>
     mapping (cells ! j) = None \<Longrightarrow> ids ! i \<noteq> ids ! j"
proof (induction cells arbitrary: used p ids i j)
  case Nil
  then show ?case by simp
next
  case (Cons c cells)
  from Cons.prems(1) obtain a used1 p1 rest where
    h: "get_or_make_id src ''random'' len mapping used p c = Some (Inr (a, used1, p1))"
    and t: "apply_get_or_make_id src ''random'' len mapping used1 p1 cells
              = Some (Inr (rest, used', p'))"
    and ids: "ids = a # rest"
    by (auto split: option.splits sum.splits)
  from Cons.prems(2) obtain j' where j: "j = Suc j'" by (cases j) auto
  with Cons.prems(3,5) have j': "j' < length cells" "mapping (cells ! j') = None" by simp_all
  show ?case
  proof (cases i)
    case 0
    with Cons.prems(4) have "mapping c = None" by simp
    from get_or_make_id_random_new [OF this h] obtain u where
      u: "a = PyStr u" "used1 = insert u used" by blast
    from apply_get_or_make_id_random_new [OF t j'] obtain w where
      "rest ! j' = PyStr w" "w \<notin> used1" by blast
    with u ids 0 j show ?thesis by auto
  next
    case (Suc i')
    with Cons.prems(2,4) j have "i' < j'" "mapping (cells ! i') = None" by simp_all
    from Cons.IH [OF t this(1) j'(1) this(2) j'(2)] ids Suc j show ?thesis by simp
  qed
qed

lemma apply_get_or_make_id_stable:
  "apply_get_or_make_id src ''stable'' len mapping used p cells
     = Some (Inr (map (\<lambda>c. case mapping c of Some v \<Rightarrow> v
                            | None \<Rightarrow> PyStr (hash_b32 (scaffold_key c) len)) cells,
                  used \<union> {hash_b32 (scaffold_key c) len | c. c \<in> set cells \<and> mapping c = None},
                  p))"
proof (induction cells arbitrary: used)
  case Nil
  show ?case by simp
next
  case (Cons c cells)
  show ?case
  proof (cases "mapping c")
    case None
    have "insert (hash_b32 (scaffold_key c) len) used \<union>
            {hash_b32 (scaffold_key c) len | c. c \<in> set cells \<and> mapping c = None}
          = used \<union> {hash_b32 (scaffold_key ca) len | ca. ca \<in> set (c # cells) \<and> mapping ca = None}"
      using None by auto
    with None Cons [of "insert (hash_b32 (scaffold_key c) len) used"] show ?thesis
      by (simp add: get_or_make_id_stable_new)
  next
    case (Some v)
    have "{hash_b32 (scaffold_key c) len | c. c \<in> set cells \<and> mapping c = None}
          = {hash_b32 (scaffold_key ca) len | ca. ca \<in> set (c # cells) \<and> mapping ca = None}"
      using Some by auto
    with Some Cons [of used] show ?thesis
      by (simp add: get_or_make_id_present)
  qed
qed


lemma get_or_make_id_random_fresh:
  "mapping s = None \<Longrightarrow> drawn_id src default_chars p (nat len) \<notin> used \<Longrightarrow>
     get_or_make_id src ''random'' len mapping used p s
       = Some (Inr (PyStr (drawn_id src default_chars p (nat len)),
                    insert (drawn_id src default_chars p (nat len)) used, p + nat len))"
  by (simp add: get_or_make_id_def make_scaffold_id_random regenerate_unfold_fresh)

lemma counting_draw_0: "drawn_id counting_source default_chars 0 8 = ''ABCDEFGH''"
  by (simp add: drawn_id_def counting_source_def default_chars_def upt_rec)

lemma counting_draw_8: "drawn_id counting_source default_chars 8 8 = ''IJKLMNOP''"
  by (simp add: drawn_id_def counting_source_def default_chars_def upt_rec)

lemma counting_run_duplicates:
  "extrapolate_ids counting_source 0
     [(''scaffold_smiles'', [PyStr ''c1ccccc1'']), (''scaffold_id'', [PyStr ''AB12CD''])]
     [(''scaffold_smiles'', [PyStr ''c1ccncc1'', PyStr ''c1ccncc1''])]
     ''scaffold_smiles'' ''scaffold_id'' ''random'' 8
   = Some (Inr ([(''scaffold_smiles'', [PyStr ''c1ccncc1'', PyStr ''c1ccncc1'']),
                 (''scaffold_id'', [PyStr ''ABCDEFGH'', PyStr ''IJKLMNOP''])], 16))"
  by (simp add: extrapolate_ids_def dict_zip_single get_or_make_id_random_fresh
      counting_draw_0 counting_draw_8)

text \<open>
  The claim C5 as stated fails under \<open>random\<close>: the lookup is never extended, so the second
  row with the unseen key \<open>c1ccncc1\<close> is not found either and a second identifier is made
  for it, different from the first.
\<close>

theorem duplicate_unseen_key_counterexample:
  "extrapolate_ids counting_source 0
     [(''scaffold_smiles'', [PyStr ''c1ccccc1'']), (''scaffold_id'', [PyStr ''AB12CD''])]
     [(''scaffold_smiles'', [PyStr ''c1ccncc1'', PyStr ''c1ccncc1''])]
     ''scaffold_smiles'' ''scaffold_id'' ''random'' 8
   = Some (Inr ([(''scaffold_smiles'', [PyStr ''c1ccncc1'', PyStr ''c1ccncc1'']),
                 (''scaffold_id'', [PyStr ''ABCDEFGH'', PyStr ''IJKLMNOP''])], 16)) \<and>
   PyStr ''ABCDEFGH'' \<noteq> PyStr ''IJKLMNOP''"
  by (simp add: counting_run_duplicates)

text \<open>
  C5 (amended). The lookup is not extended during the call: every occurrence of a key absent
  from the registry makes an identifier anew. Under \<open>stable\<close> each row receives the hash of
  its own normalised key, so all occurrences of one unseen key receive the same identifier;
  under \<open>random\<close> two occurrences of one unseen key receive different identifiers.
\<close>

theorem unseen_key_minted_per_occurrence:
  assumes "map_of existing_df scaffold_col = Some old_keys"
    and "map_of existing_df id_col = Some old_ids"
    and "map_of new_df scaffold_col = Some cells"
  shows "extrapolate_ids src p existing_df new_df scaffold_col id_col ''stable'' len
           = Some (Inr (AList.update id_col
                (map (\<lambda>c. case dict_zip old_keys old_ids c of Some v \<Rightarrow> v
                           | None \<Rightarrow> PyStr (hash_b32 (scaffold_key c) len)) cells) new_df, p)) \<and>
         (\<forall>out p'. extrapolate_ids src p existing_df new_df scaffold_col id_col ''random'' len
                      = Some (Inr (out, p')) \<longrightarrow>
            (\<exists>ids. out = AList.update id_col ids new_df \<and> length ids = length cells \<and>
               (\<forall>i j. i < j \<longrightarrow> j < length cells \<longrightarrow>
                  dict_zip old_keys old_ids (cells ! i) = None \<longrightarrow> cells ! j = cells ! i \<longrightarrow>
                  ids ! i \<noteq> ids ! j)))"
proof (intro conjI allI impI)
  show "extrapolate_ids src p existing_df new_df scaffold_col id_col ''stable'' len
           = Some (Inr (AList.update id_col
                (map (\<lambda>c. case dict_zip old_keys old_ids c of Some v \<Rightarrow> v
                           | None \<Rightarrow> PyStr (hash_b32 (scaffold_key c) len)) cells) new_df, p))"
    using assms by (simp add: extrapolate_ids_def Let_def apply_get_or_make_id_stable)
next
  fix out p'
  assume r: "extrapolate_ids src p existing_df new_df scaffold_col id_col ''random'' len
      = Some (Inr (out, p'))"
  let ?m = "dict_zip old_keys old_ids"
  from r assms obtain ids used' where
    a: "apply_get_or_make_id src ''random'' len ?m (set (map py_str old_ids)) p cells
          = Some (Inr (ids, used', p'))"
    and out: "out = AList.update id_col ids new_df"
    by (auto simp: extrapolate_ids_def Let_def split: option.splits sum.splits)
  have "ids ! i \<noteq> ids ! j"
    if "i < j" "j < length cells" "?m (cells ! i) = None" "cells ! j = cells ! i" for i j
    using apply_get_or_make_id_random_distinct [OF a that(1,2,3)] that(3,4) by simp
  with apply_get_or_make_id_length [OF a] out
  show "\<exists>ids. out = AList.update id_col ids new_df \<and> length ids = length cells \<and>
      (\<forall>i j. i < j \<longrightarrow> j < length cells \<longrightarrow> ?m (cells ! i) = None \<longrightarrow>
         cells ! j = cells ! i \<longrightarrow> ids ! i \<noteq> ids ! j)"
    by blast
qed


theorem unseen_key_minted_witness:
  "extrapolate_ids counting_source 0
     [(''scaffold_smiles'', [PyStr ''c1ccccc1'']), (''scaffold_id'', [PyStr ''AB12CD''])]
     [(''scaffold_smiles'', [PyStr ''c1ccncc1'', PyStr ''c1ccncc1''])]
     ''scaffold_smiles'' ''scaffold_id'' ''stable'' 8
   = Some (Inr ([(''scaffold_smiles'', [PyStr ''c1ccncc1'', PyStr ''c1ccncc1'']),
                 (''scaffold_id'', [PyStr (hash_b32 (scaffold_key (PyStr ''c1ccncc1'')) 8),
                                    PyStr (hash_b32 (scaffold_key (PyStr ''c1ccncc1'')) 8)])], 0)) \<and>
   extrapolate_ids counting_source 0
     [(''scaffold_smiles'', [PyStr ''c1ccccc1'']), (''scaffold_id'', [PyStr ''AB12CD''])]
     [(''scaffold_smiles'', [PyStr ''c1ccncc1'', PyStr ''c1ccncc1''])]
     ''scaffold_smiles'' ''scaffold_id'' ''random'' 8
   = Some (Inr ([(''scaffold_smiles'', [PyStr ''c1ccncc1'', PyStr ''c1ccncc1'']),
                 (''scaffold_id'', [PyStr ''ABCDEFGH'', PyStr ''IJKLMNOP''])], 16)) \<and>
   [PyStr ''ABCDEFGH'', PyStr ''IJKLMNOP''] ! 0 \<noteq> [PyStr ''ABCDEFGH'', PyStr ''IJKLMNOP''] ! 1"
proof -
  let ?reg = "[(''scaffold_smiles'', [PyStr ''c1ccccc1'']), (''scaffold_id'', [PyStr ''AB12CD''])]"
  let ?new = "[(''scaffold_smiles'', [PyStr ''c1ccncc1'', PyStr ''c1ccncc1''])]"
  have a: "map_of ?reg ''scaffold_smiles'' = Some [PyStr ''c1ccccc1'']" by simp
  have b: "map_of ?reg ''scaffold_id'' = Some [PyStr ''AB12CD'']" by simp
  have c: "map_of ?new ''scaffold_smiles'' = Some [PyStr ''c1ccncc1'', PyStr ''c1ccncc1'']"
    by simp
  note t = unseen_key_minted_per_occurrence [OF a b c, where src = counting_source and p = 0 and len = 8]
  from t have s: "extrapolate_ids counting_source 0 ?reg ?new
      ''scaffold_smiles'' ''scaffold_id'' ''stable'' 8
      = Some (Inr ([(''scaffold_smiles'', [PyStr ''c1ccncc1'', PyStr ''c1ccncc1'']),
                 (''scaffold_id'', [PyStr (hash_b32 (scaffold_key (PyStr ''c1ccncc1'')) 8),
                                    PyStr (hash_b32 (scaffold_key (PyStr ''c1ccncc1'')) 8)])], 0))"
    by (simp add: dict_zip_single)
  from t counting_run_duplicates obtain ids where
    i: "[(''scaffold_smiles'', [PyStr ''c1ccncc1'', PyStr ''c1ccncc1'']),
         (''scaffold_id'', [PyStr ''ABCDEFGH'', PyStr ''IJKLMNOP''])]
        = AList.update ''scaffold_id'' ids ?new"
       "\<forall>i j. i < j \<longrightarrow> j < length [PyStr ''c1ccncc1'', PyStr ''c1ccncc1''] \<longrightarrow>
          dict_zip [PyStr ''c1ccccc1''] [PyStr ''AB12CD'']
            ([PyStr ''c1ccncc1'', PyStr ''c1ccncc1''] ! i) = None \<longrightarrow>
          [PyStr ''c1ccncc1'', PyStr ''c1ccncc1''] ! j = [PyStr ''c1ccncc1'', PyStr ''c1ccncc1''] ! i \<longrightarrow>
          ids ! i \<noteq> ids ! j"
    by blast
  from i(1) have ids: "ids = [PyStr ''ABCDEFGH'', PyStr ''IJKLMNOP'']" by simp
  from i(2) [rule_format, of 0 1] have "ids ! 0 \<noteq> ids ! 1"
    by (simp add: dict_zip_single)
  with s counting_run_duplicates ids show ?thesis by simp
qed

lemma registry_from_padded_key:
  "assign_ids zero_source 0 [(''scaffold_smiles'', [PyStr '' c1ccccc1''])]
     ''scaffold_smiles'' ''scaffold_id'' ''stable'' 8
   = Some (Inr ([(''scaffold_smiles'', [PyStr '' c1ccccc1'']),
                 (''scaffold_id'', [PyStr ''QREAIMMB''])], 0))"
  by (simp add: assign_ids_def make_scaffold_id_stable scaffold_key_def py_strip_padded_benzene
      hash_benzene_8)

text \<open>
  The claim C4 as stated fails under \<open>stable\<close>: the registry that \<^const>\<open>assign_ids\<close>
  makes from the key \<open>" c1ccccc1"\<close> holds the identifier \<open>QREAIMMB\<close>; the key \<open>c1ccccc1\<close>
  is absent from it, and its new identifier is again \<open>QREAIMMB\<close>.
\<close>

theorem novelty_stable_counterexample:
  "assign_ids zero_source 0 [(''scaffold_smiles'', [PyStr '' c1ccccc1''])]
     ''scaffold_smiles'' ''scaffold_id'' ''stable'' 8
   = Some (Inr ([(''scaffold_smiles'', [PyStr '' c1ccccc1'']),
                 (''scaffold_id'', [PyStr ''QREAIMMB''])], 0)) \<and>
   extrapolate_ids zero_source 0
     [(''scaffold_smiles'', [PyStr '' c1ccccc1'']), (''scaffold_id'', [PyStr ''QREAIMMB''])]
     [(''scaffold_smiles'', [PyStr ''c1ccccc1''])]
     ''scaffold_smiles'' ''scaffold_id'' ''stable'' 8
   = Some (Inr ([(''scaffold_smiles'', [PyStr ''c1ccccc1'']),
                 (''scaffold_id'', [PyStr ''QREAIMMB''])], 0)) \<and>
   dict_zip [PyStr '' c1ccccc1''] [PyStr ''QREAIMMB''] (PyStr ''c1ccccc1'') = None \<and>
   PyStr ''QREAIMMB'' \<in> set [PyStr ''QREAIMMB'']"
  by (simp add: registry_from_padded_key extrapolate_ids_def dict_zip_single
      get_or_make_id_stable_new scaffold_key_def py_strip_benzene hash_benzene_8)

text \<open>
  C4 (amended). In every frame that \<^const>\<open>extrapolate_ids\<close> returns under \<open>random\<close>, the
  identifier of a row whose key is absent from the registry is none of the registry's
  identifiers and differs from the identifier of every other such row. Under \<open>stable\<close> the
  identifier of such a row is the hash of its normalised key, with no check against the
  registry or the other rows.
\<close>

theorem random_identifiers_are_new:
  assumes "map_of existing_df scaffold_col = Some old_keys"
    and "map_of existing_df id_col = Some old_ids"
    and "map_of new_df scaffold_col = Some cells"
  shows "(\<forall>out p'. extrapolate_ids src p existing_df new_df scaffold_col id_col ''random'' len
                      = Some (Inr (out, p')) \<longrightarrow>
            (\<exists>ids. out = AList.update id_col ids new_df \<and> length ids = length cells \<and>
               (\<forall>i<length cells. dict_zip old_keys old_ids (cells ! i) = None \<longrightarrow>
                  ids ! i \<notin> set old_ids \<and>
                  (\<forall>j<length cells. j \<noteq> i \<longrightarrow> dict_zip old_keys old_ids (cells ! j) = None \<longrightarrow>
                     ids ! j \<noteq> ids ! i)))) \<and>
         (\<forall>s used q. dict_zip old_keys old_ids s = None \<longrightarrow>
            get_or_make_id src ''stable'' len (dict_zip old_keys old_ids) used q s
              = Some (Inr (PyStr (hash_b32 (scaffold_key s) len),
                           insert (hash_b32 (scaffold_key s) len) used, q)))"
proof (intro conjI allI impI)
  fix out p'
  assume r: "extrapolate_ids src p existing_df new_df scaffold_col id_col ''random'' len
      = Some (Inr (out, p'))"
  let ?m = "dict_zip old_keys old_ids"
  from r assms obtain ids used' where
    a: "apply_get_or_make_id src ''random'' len ?m (set (map py_str old_ids)) p cells
          = Some (Inr (ids, used', p'))"
    and out: "out = AList.update id_col ids new_df"
    by (auto simp: extrapolate_ids_def Let_def split: option.splits sum.splits)
  have fresh: "ids ! i \<notin> set old_ids" if "i < length cells" "?m (cells ! i) = None" for i
  proof
    assume m: "ids ! i \<in> set old_ids"
    from apply_get_or_make_id_random_new [OF a that] obtain t where
      t: "ids ! i = PyStr t" "t \<notin> set (map py_str old_ids)" by blast
    from m t(1) have "py_str (PyStr t) \<in> py_str ` set old_ids" by (metis imageI)
    with t(2) show False by simp
  qed
  have apart: "ids ! j \<noteq> ids ! i"
    if "i < length cells" "j < length cells" "j \<noteq> i" "?m (cells ! i) = None"
       "?m (cells ! j) = None" for i j
  proof (cases "i < j")
    case True
    from apply_get_or_make_id_random_distinct [OF a True that(2,4,5)] show ?thesis by simp
  next
    case False
    with that(3) have "j < i" by simp
    from apply_get_or_make_id_random_distinct [OF a this that(1,5,4)] show ?thesis by simp
  qed
  from fresh apart apply_get_or_make_id_length [OF a] out
  show "\<exists>ids. out = AList.update id_col ids new_df \<and> length ids = length cells \<and>
      (\<forall>i<length cells. ?m (cells ! i) = None \<longrightarrow> ids ! i \<notin> set old_ids \<and>
         (\<forall>j<length cells. j \<noteq> i \<longrightarrow> ?m (cells ! j) = None \<longrightarrow> ids ! j \<noteq> ids ! i))"
    by blast
next
  fix s used q
  assume "dict_zip old_keys old_ids s = None"
  then show "get_or_make_id src ''stable'' len (dict_zip old_keys old_ids) used q s
      = Some (Inr (PyStr (hash_b32 (scaffold_key s) len),
                   insert (hash_b32 (scaffold_key s) len) used, q))"
    by (rule get_or_make_id_stable_new)
qed


lemma counting_run_worked_example:
  "extrapolate_ids counting_source 0
     [(''scaffold_smiles'', [PyStr ''c1ccccc1'']), (''scaffold_id'', [PyStr ''AB12CD''])]
     [(''scaffold_smiles'', [PyStr ''c1ccccc1'', PyStr ''c1ccncc1''])]
     ''scaffold_smiles'' ''scaffold_id'' ''random'' 8
   = Some (Inr ([(''scaffold_smiles'', [PyStr ''c1ccccc1'', PyStr ''c1ccncc1'']),
                 (''scaffold_id'', [PyStr ''AB12CD'', PyStr ''ABCDEFGH''])], 8))"
  by (simp add: extrapolate_ids_def dict_zip_single get_or_make_id_present
      get_or_make_id_random_fresh counting_draw_0)

theorem random_identifiers_new_witness:
  "extrapolate_ids counting_source 0
     [(''scaffold_smiles'', [PyStr ''c1ccccc1'']), (''scaffold_id'', [PyStr ''AB12CD''])]
     [(''scaffold_smiles'', [PyStr ''c1ccccc1'', PyStr ''c1ccncc1''])]
     ''scaffold_smiles'' ''scaffold_id'' ''random'' 8
   = Some (Inr ([(''scaffold_smiles'', [PyStr ''c1ccccc1'', PyStr ''c1ccncc1'']),
                 (''scaffold_id'', [PyStr ''AB12CD'', PyStr ''ABCDEFGH''])], 8)) \<and>
   [PyStr ''AB12CD'', PyStr ''ABCDEFGH''] ! 1 \<notin> set [PyStr ''AB12CD''] \<and>
   get_or_make_id counting_source ''stable'' 8
     (dict_zip [PyStr ''c1ccccc1''] [PyStr ''AB12CD'']) {''AB12CD''} 0 (PyStr ''c1ccncc1'')
   = Some (Inr (PyStr (hash_b32 (scaffold_key (PyStr ''c1ccncc1'')) 8),
                insert (hash_b32 (scaffold_key (PyStr ''c1ccncc1'')) 8) {''AB12CD''}, 0))"
proof -
  let ?reg = "[(''scaffold_smiles'', [PyStr ''c1ccccc1'']), (''scaffold_id'', [PyStr ''AB12CD''])]"
  let ?new = "[(''scaffold_smiles'', [PyStr ''c1ccccc1'', PyStr ''c1ccncc1''])]"
  let ?cells = "[PyStr ''c1ccccc1'', PyStr ''c1ccncc1'']"
  let ?m = "dict_zip [PyStr ''c1ccccc1''] [PyStr ''AB12CD'']"
  have a: "map_of ?reg ''scaffold_smiles'' = Some [PyStr ''c1ccccc1'']" by simp
  have b: "map_of ?reg ''scaffold_id'' = Some [PyStr ''AB12CD'']" by simp
  have c: "map_of ?new ''scaffold_smiles'' = Some ?cells" by simp
  have d: "?m (PyStr ''c1ccncc1'') = None" by (simp add: dict_zip_single)
  note t = random_identifiers_are_new [OF a b c, where src = counting_source and p = 0 and len = 8]
  from t counting_run_worked_example obtain ids where
    i: "[(''scaffold_smiles'', ?cells), (''scaffold_id'', [PyStr ''AB12CD'', PyStr ''ABCDEFGH''])]
        = AList.update ''scaffold_id'' ids ?new"
       "\<forall>i<length ?cells. ?m (?cells ! i) = None \<longrightarrow> ids ! i \<notin> set [PyStr ''AB12CD''] \<and>
          (\<forall>j<length ?cells. j \<noteq> i \<longrightarrow> ?m (?cells ! j) = None \<longrightarrow> ids ! j \<noteq> ids ! i)"
    by blast
  from i(1) have ids: "ids = [PyStr ''AB12CD'', PyStr ''ABCDEFGH'']" by simp
  from i(2) [rule_format, of 1] d have "ids ! 1 \<notin> set [PyStr ''AB12CD'']" by simp
  moreover from t d have "get_or_make_id counting_source ''stable'' 8 ?m {''AB12CD''} 0
      (PyStr ''c1ccncc1'')
      = Some (Inr (PyStr (hash_b32 (scaffold_key (PyStr ''c1ccncc1'')) 8),
                   insert (hash_b32 (scaffold_key (PyStr ''c1ccncc1'')) 8) {''AB12CD''}, 0))"
    by blast
  ultimately show ?thesis using counting_run_worked_example ids by simp
qed

subsection \<open>Rows of the registry and the lookup table\<close>

text \<open>
  The lookup table is \<^verbatim>\<open>dict(zip(keys, ids))\<close>: of the rows of the registry that carry the
  same key, the last one decides the identifier. With distinct keys every row is the last
  row of its key.
\<close>

lemma fold_upd_map_of:
  "fold (\<lambda>(k, v) m. m(k \<mapsto> v)) ps m = m ++ map_of (rev ps)"
proof (induction ps arbitrary: m)
  case Nil
  show ?case by simp
next
  case (Cons a ps)
  obtain k v where a: "a = (k, v)" by (cases a)
  have "fold (\<lambda>(k, v) m. m(k \<mapsto> v)) (a # ps) m
          = fold (\<lambda>(k, v) m. m(k \<mapsto> v)) ps (m(k \<mapsto> v))"
    unfolding a by (simp only: fold.simps comp_apply case_prod_conv)
  also have "\<dots> = m(k \<mapsto> v) ++ map_of (rev ps)"
    by (rule Cons.IH)
  also have "\<dots> = m ++ map_of (rev (a # ps))"
    unfolding a by (rule ext) (simp add: map_add_def split: option.splits)
  finally show ?case .
qed

lemma dict_zip_map_of: "dict_zip ks vs = map_of (rev (zip ks vs))"
  by (simp add: dict_zip_def fold_upd_map_of)

lemma map_of_rev_last_row:
  "r < length ps \<Longrightarrow>
     (\<forall>r'. r < r' \<longrightarrow> r' < length ps \<longrightarrow> fst (ps ! r') \<noteq> fst (ps ! r)) \<Longrightarrow>
     map_of (rev ps) (fst (ps ! r)) = Some (snd (ps ! r))"
proof (induction ps arbitrary: r)
  case Nil
  then show ?case by simp
next
  case (Cons a ps)
  show ?case
  proof (cases r)
    case 0
    have "fst a \<notin> fst ` set ps"
    proof
      assume "fst a \<in> fst ` set ps"
      then obtain j where j: "j < length ps" "fst (ps ! j) = fst a"
        by (auto simp: in_set_conv_nth)
      from Cons.prems(2) [rule_format, of "Suc j"] 0 j show False by simp
    qed
    then have "map_of (rev ps) (fst a) = None"
      by (simp add: map_of_eq_None_iff)
    with 0 show ?thesis
      by (cases a) (simp add: map_add_def)
  next
    case (Suc j)
    with Cons.prems(1) have j: "j < length ps" by simp
    have "\<forall>r'. j < r' \<longrightarrow> r' < length ps \<longrightarrow> fst (ps ! r') \<noteq> fst (ps ! j)"
    proof (intro allI impI)
      fix r' assume "j < r'" "r' < length ps"
      with Cons.prems(2) [rule_format, of "Suc r'"] Suc show "fst (ps ! r') \<noteq> fst (ps ! j)"
        by simp
    qed
    from Cons.IH [OF j this] Suc show ?thesis
      by (simp add: map_add_def)
  qed
qed

lemma dict_zip_row:
  assumes "r < length ks" and "r < length vs"
    and "\<forall>r'. r < r' \<longrightarrow> r' < length ks \<longrightarrow> r' < length vs \<longrightarrow> ks ! r' \<noteq> ks ! r"
  shows "dict_zip ks vs (ks ! r) = Some (vs ! r)"
proof -
  have l: "r < length (zip ks vs)" using assms(1,2) by simp
  have "\<forall>r'. r < r' \<longrightarrow> r' < length (zip ks vs) \<longrightarrow> fst (zip ks vs ! r') \<noteq> fst (zip ks vs ! r)"
    using assms by simp
  from map_of_rev_last_row [OF l this] assms(1,2) show ?thesis
    by (simp add: dict_zip_map_of)
qed

lemma dict_zip_dom: "dom (dict_zip ks vs) = fst ` set (zip ks vs)"
  by (simp add: dict_zip_map_of dom_map_of_conv_image_fst)

lemma dict_zip_Some: "dict_zip ks vs k = Some v \<Longrightarrow> (k, v) \<in> set (zip ks vs)"
  using map_of_SomeD [of "rev (zip ks vs)" k v] by (simp add: dict_zip_map_of)

lemma distinct_keys_last_row:
  "distinct ks \<Longrightarrow> \<forall>r'. r < r' \<longrightarrow> r' < length ks \<longrightarrow> r' < length vs \<longrightarrow> ks ! r' \<noteq> ks ! r"
  by (auto simp: nth_eq_iff_index_eq)

subsection \<open>Registry rows keep their identifiers\<close>

lemma extrapolate_ids_stable:
  assumes "map_of existing_df scaffold_col = Some old_keys"
    and "map_of existing_df id_col = Some old_ids"
    and "map_of new_df scaffold_col = Some cells"
  shows "extrapolate_ids src p existing_df new_df scaffold_col id_col ''stable'' len
           = Some (Inr (AList.update id_col
                (map (\<lambda>c. case dict_zip old_keys old_ids c of Some v \<Rightarrow> v
                           | None \<Rightarrow> PyStr (hash_b32 (scaffold_key c) len)) cells) new_df, p))"
  using assms by (simp add: extrapolate_ids_def Let_def apply_get_or_make_id_stable)

lemma extrapolate_ids_returned:
  assumes "map_of existing_df scaffold_col = Some old_keys"
    and "map_of existing_df id_col = Some old_ids"
    and "map_of new_df scaffold_col = Some cells"
    and "extrapolate_ids src p existing_df new_df scaffold_col id_col strategy_new len
           = Some (Inr (out, p'))"
  shows "\<exists>ids used'. apply_get_or_make_id src strategy_new len (dict_zip old_keys old_ids)
                         (set (map py_str old_ids)) p cells = Some (Inr (ids, used', p')) \<and>
                      out = AList.update id_col ids new_df"
  using assms by (auto simp: extrapolate_ids_def Let_def split: option.splits sum.splits)

text \<open>
  C1. Let row \<open>r\<close> of the registry be the last row carrying its key (every row is, when the
  keys of the registry are distinct). Then the lookup table built from the registry maps
  the key of row \<open>r\<close> to the identifier of row \<open>r\<close>; the per-row closure returns that
  identifier for that key under every strategy, with the used set and the random source
  untouched; under \<open>stable\<close> \<^const>\<open>extrapolate_ids\<close> always returns a frame, and in it every
  new row whose key is the key of row \<open>r\<close> carries the identifier of row \<open>r\<close>; the same holds
  of every frame returned under any strategy; and when every key of the new frame is a
  key of the registry, the call returns such a frame under any strategy. The registry
  frame is an argument that is only read: the result is the new frame with one column set.
\<close>

theorem registry_ids_preserved:
  assumes "map_of existing_df scaffold_col = Some old_keys"
    and "map_of existing_df id_col = Some old_ids"
    and "map_of new_df scaffold_col = Some cells"
    and "r < length old_keys" and "r < length old_ids"
    and "\<forall>r'. r < r' \<longrightarrow> r' < length old_keys \<longrightarrow> r' < length old_ids \<longrightarrow>
           old_keys ! r' \<noteq> old_keys ! r"
  shows "dict_zip old_keys old_ids (old_keys ! r) = Some (old_ids ! r) \<and>
         (\<forall>used q. get_or_make_id src strategy_new len (dict_zip old_keys old_ids) used q
                      (old_keys ! r) = Some (Inr (old_ids ! r, used, q))) \<and>
         (\<exists>ids. extrapolate_ids src p existing_df new_df scaffold_col id_col ''stable'' len
                    = Some (Inr (AList.update id_col ids new_df, p)) \<and>
                 length ids = length cells \<and>
                 (\<forall>i<length cells. cells ! i = old_keys ! r \<longrightarrow> ids ! i = old_ids ! r)) \<and>
         (\<forall>out p'. extrapolate_ids src p existing_df new_df scaffold_col id_col strategy_new len
                      = Some (Inr (out, p')) \<longrightarrow>
            (\<exists>ids. out = AList.update id_col ids new_df \<and> length ids = length cells \<and>
               (\<forall>i<length cells. cells ! i = old_keys ! r \<longrightarrow> ids ! i = old_ids ! r))) \<and>
         (set cells \<subseteq> fst ` set (zip old_keys old_ids) \<longrightarrow>
            (\<exists>ids. extrapolate_ids src p existing_df new_df scaffold_col id_col strategy_new len
                       = Some (Inr (AList.update id_col ids new_df, p)) \<and>
                    length ids = length cells \<and>
                    (\<forall>i<length cells. cells ! i = old_keys ! r \<longrightarrow> ids ! i = old_ids ! r)))"
proof -
  let ?m = "dict_zip old_keys old_ids"
  have row: "?m (old_keys ! r) = Some (old_ids ! r)"
    using assms(4,5,6) by (rule dict_zip_row)
  have hit: "get_or_make_id src strategy_new len ?m used q (old_keys ! r)
               = Some (Inr (old_ids ! r, used, q))" for used q
    using row by (rule get_or_make_id_present)
  have stable: "\<exists>ids. extrapolate_ids src p existing_df new_df scaffold_col id_col ''stable'' len
                    = Some (Inr (AList.update id_col ids new_df, p)) \<and>
                 length ids = length cells \<and>
                 (\<forall>i<length cells. cells ! i = old_keys ! r \<longrightarrow> ids ! i = old_ids ! r)"
    using extrapolate_ids_stable [OF assms(1,2,3), where src = src and p = p and len = len] row by auto
  have ret: "\<exists>ids. out = AList.update id_col ids new_df \<and> length ids = length cells \<and>
               (\<forall>i<length cells. cells ! i = old_keys ! r \<longrightarrow> ids ! i = old_ids ! r)"
    if "extrapolate_ids src p existing_df new_df scaffold_col id_col strategy_new len
          = Some (Inr (out, p'))" for out p'
  proof -
    from extrapolate_ids_returned [OF assms(1,2,3) that] obtain ids used' where
      a: "apply_get_or_make_id src strategy_new len ?m (set (map py_str old_ids)) p cells
            = Some (Inr (ids, used', p'))"
      and out: "out = AList.update id_col ids new_df"
      by blast
    have "ids ! i = old_ids ! r" if "i < length cells" "cells ! i = old_keys ! r" for i
      using apply_get_or_make_id_present [OF a that(1), of "old_ids ! r"] row that(2) by simp
    with apply_get_or_make_id_length [OF a] out show ?thesis by blast
  qed
  have known: "\<exists>ids. extrapolate_ids src p existing_df new_df scaffold_col id_col strategy_new len
                       = Some (Inr (AList.update id_col ids new_df, p)) \<and>
                    length ids = length cells \<and>
                    (\<forall>i<length cells. cells ! i = old_keys ! r \<longrightarrow> ids ! i = old_ids ! r)"
    if "set cells \<subseteq> fst ` set (zip old_keys old_ids)"
  proof -
    from that have "set cells \<subseteq> dom ?m" by (simp add: dict_zip_dom)
    from apply_get_or_make_id_all_present [OF this] assms(1,2,3)
    have e: "extrapolate_ids src p existing_df new_df scaffold_col id_col strategy_new len
          = Some (Inr (AList.update id_col (map (\<lambda>c. the (?m c)) cells) new_df, p))"
      by (simp add: extrapolate_ids_def Let_def)
    from ret [OF e] e show ?thesis by auto
  qed
  from row hit stable ret known show ?thesis by blast
qed


text \<open>
  A registry of two rows, \<open>c1ccccc1\<close> with \<open>AB12CD\<close> and \<open>NCCc1ccccc1\<close> with \<open>ZZ99ZZ\<close>, and three
  new rows, of which the second has a key the registry does not know.
\<close>

lemma dict_zip_two: "dict_zip [k1, k2] [v1, v2] = [k1 \<mapsto> v1, k2 \<mapsto> v2]"
  by (simp add: dict_zip_def)

lemma py_strip_pyridine: "py_strip ''c1ccncc1'' = ''c1ccncc1''"
  by (simp add: py_strip_def py_isspace_def)

lemma stable_run_mixed:
  "extrapolate_ids counting_source 0
     [(''scaffold_smiles'', [PyStr ''c1ccccc1'', PyStr ''NCCc1ccccc1'']),
      (''scaffold_id'', [PyStr ''AB12CD'', PyStr ''ZZ99ZZ''])]
     [(''scaffold_smiles'', [PyStr ''NCCc1ccccc1'', PyStr ''c1ccncc1'', PyStr ''c1ccccc1''])]
     ''scaffold_smiles'' ''scaffold_id'' ''stable'' 8
   = Some (Inr ([(''scaffold_smiles'',
                    [PyStr ''NCCc1ccccc1'', PyStr ''c1ccncc1'', PyStr ''c1ccccc1'']),
                 (''scaffold_id'',
                    [PyStr ''ZZ99ZZ'', PyStr (hash_b32 ''c1ccncc1'' 8), PyStr ''AB12CD''])], 0))"
  by (simp add: extrapolate_ids_def dict_zip_two get_or_make_id_present
      get_or_make_id_stable_new scaffold_key_def py_strip_pyridine)

lemma random_run_mixed:
  "extrapolate_ids counting_source 0
     [(''scaffold_smiles'', [PyStr ''c1ccccc1'', PyStr ''NCCc1ccccc1'']),
      (''scaffold_id'', [PyStr ''AB12CD'', PyStr ''ZZ99ZZ''])]
     [(''scaffold_smiles'', [PyStr ''NCCc1ccccc1'', PyStr ''c1ccncc1'', PyStr ''c1ccccc1''])]
     ''scaffold_smiles'' ''scaffold_id'' ''random'' 8
   = Some (Inr ([(''scaffold_smiles'',
                    [PyStr ''NCCc1ccccc1'', PyStr ''c1ccncc1'', PyStr ''c1ccccc1'']),
                 (''scaffold_id'',
                    [PyStr ''ZZ99ZZ'', PyStr ''ABCDEFGH'', PyStr ''AB12CD''])], 8))"
  by (simp add: extrapolate_ids_def dict_zip_two get_or_make_id_present
      get_or_make_id_random_fresh counting_draw_0)

theorem registry_ids_preserved_witness:
  "dict_zip [PyStr ''c1ccccc1'', PyStr ''NCCc1ccccc1''] [PyStr ''AB12CD'', PyStr ''ZZ99ZZ'']
     (PyStr ''NCCc1ccccc1'') = Some (PyStr ''ZZ99ZZ'') \<and>
   get_or_make_id counting_source ''random'' 8
     (dict_zip [PyStr ''c1ccccc1'', PyStr ''NCCc1ccccc1''] [PyStr ''AB12CD'', PyStr ''ZZ99ZZ''])
     {''AB12CD'', ''ZZ99ZZ''} 0 (PyStr ''c1ccccc1'')
     = Some (Inr (PyStr ''AB12CD'', {''AB12CD'', ''ZZ99ZZ''}, 0)) \<and>
   extrapolate_ids counting_source 0
     [(''scaffold_smiles'', [PyStr ''c1ccccc1'', PyStr ''NCCc1ccccc1'']),
      (''scaffold_id'', [PyStr ''AB12CD'', PyStr ''ZZ99ZZ''])]
     [(''scaffold_smiles'', [PyStr ''NCCc1ccccc1'', PyStr ''c1ccncc1'', PyStr ''c1ccccc1''])]
     ''scaffold_smiles'' ''scaffold_id'' ''stable'' 8
   = Some (Inr ([(''scaffold_smiles'',
                    [PyStr ''NCCc1ccccc1'', PyStr ''c1ccncc1'', PyStr ''c1ccccc1'']),
                 (''scaffold_id'',
                    [PyStr ''ZZ99ZZ'', PyStr (hash_b32 ''c1ccncc1'' 8), PyStr ''AB12CD''])], 0)) \<and>
   extrapolate_ids counting_source 0
     [(''scaffold_smiles'', [PyStr ''c1ccccc1'', PyStr ''NCCc1ccccc1'']),
      (''scaffold_id'', [PyStr ''AB12CD'', PyStr ''ZZ99ZZ''])]
     [(''scaffold_smiles'', [PyStr ''NCCc1ccccc1'', PyStr ''c1ccncc1'', PyStr ''c1ccccc1''])]
     ''scaffold_smiles'' ''scaffold_id'' ''random'' 8
   = Some (Inr ([(''scaffold_smiles'',
                    [PyStr ''NCCc1ccccc1'', PyStr ''c1ccncc1'', PyStr ''c1ccccc1'']),
                 (''scaffold_id'',
                    [PyStr ''ZZ99ZZ'', PyStr ''ABCDEFGH'', PyStr ''AB12CD''])], 8)) \<and>
   [PyStr ''ZZ99ZZ'', PyStr ''ABCDEFGH'', PyStr ''AB12CD''] ! 0 = PyStr ''ZZ99ZZ'' \<and>
   [PyStr ''ZZ99ZZ'', PyStr ''ABCDEFGH'', PyStr ''AB12CD''] ! 2 = PyStr ''AB12CD''"
proof -
  let ?keys = "[PyStr ''c1ccccc1'', PyStr ''NCCc1ccccc1'']"
  let ?oids = "[PyStr ''AB12CD'', PyStr ''ZZ99ZZ'']"
  let ?cells = "[PyStr ''NCCc1ccccc1'', PyStr ''c1ccncc1'', PyStr ''c1ccccc1'']"
  let ?reg = "[(''scaffold_smiles'', ?keys), (''scaffold_id'', ?oids)]"
  let ?new = "[(''scaffold_smiles'', ?cells)]"
  have a: "map_of ?reg ''scaffold_smiles'' = Some ?keys" by simp
  have b: "map_of ?reg ''scaffold_id'' = Some ?oids" by simp
  have c: "map_of ?new ''scaffold_smiles'' = Some ?cells" by simp
  have d: "distinct ?keys" by simp
  have r0: "(0::nat) < length ?keys" "(0::nat) < length ?oids" by simp_all
  have r1: "(1::nat) < length ?keys" "(1::nat) < length ?oids" by simp_all
  note t0 = registry_ids_preserved [OF a b c r0 distinct_keys_last_row [OF d],
      where src = counting_source and p = 0 and len = 8 and strategy_new = "''random''"]
  note t1 = registry_ids_preserved [OF a b c r1 distinct_keys_last_row [OF d],
      where src = counting_source and p = 0 and len = 8 and strategy_new = "''random''"]
  from t1 have l: "dict_zip ?keys ?oids (PyStr ''NCCc1ccccc1'') = Some (PyStr ''ZZ99ZZ'')"
    by simp
  from t0 have g: "get_or_make_id counting_source ''random'' 8 (dict_zip ?keys ?oids)
      {''AB12CD'', ''ZZ99ZZ''} 0 (PyStr ''c1ccccc1'')
      = Some (Inr (PyStr ''AB12CD'', {''AB12CD'', ''ZZ99ZZ''}, 0))"
    by simp
  from t1 random_run_mixed obtain ids where
    i: "[(''scaffold_smiles'', ?cells),
         (''scaffold_id'', [PyStr ''ZZ99ZZ'', PyStr ''ABCDEFGH'', PyStr ''AB12CD''])]
        = AList.update ''scaffold_id'' ids ?new"
       "\<forall>i<length ?cells. ?cells ! i = ?keys ! 1 \<longrightarrow> ids ! i = ?oids ! 1"
    by blast
  from i(1) have ids: "ids = [PyStr ''ZZ99ZZ'', PyStr ''ABCDEFGH'', PyStr ''AB12CD'']" by simp
  from i(2) [rule_format, of 0] have z: "ids ! 0 = PyStr ''ZZ99ZZ''" by simp
  from t0 random_run_mixed obtain ids' where
    i': "[(''scaffold_smiles'', ?cells),
          (''scaffold_id'', [PyStr ''ZZ99ZZ'', PyStr ''ABCDEFGH'', PyStr ''AB12CD''])]
         = AList.update ''scaffold_id'' ids' ?new"
        "\<forall>i<length ?cells. ?cells ! i = ?keys ! 0 \<longrightarrow> ids' ! i = ?oids ! 0"
    by blast
  from i'(1) have ids': "ids' = [PyStr ''ZZ99ZZ'', PyStr ''ABCDEFGH'', PyStr ''AB12CD'']" by simp
  from i'(2) [rule_format, of 2] have y: "ids' ! 2 = PyStr ''AB12CD''" by simp
  from l g z y ids ids' stable_run_mixed random_run_mixed show ?thesis by simp
qed


subsection \<open>Hits and misses of the raw key\<close>

lemma get_or_make_id_unknown_new:
  "mapping s = None \<Longrightarrow> strategy_new \<noteq> ''stable'' \<Longrightarrow> strategy_new \<noteq> ''random'' \<Longrightarrow>
     get_or_make_id src strategy_new len mapping used p s = Some (Inl ValueError_strategy)"
  by (simp add: get_or_make_id_def make_scaffold_id_unknown)

lemma dict_zip_None: "s \<notin> fst ` set (zip ks vs) \<Longrightarrow> dict_zip ks vs s = None"
  using dict_zip_dom [of ks vs] by blast

lemma dict_zip_present:
  "s \<in> fst ` set (zip ks vs) \<Longrightarrow> \<exists>v. dict_zip ks vs s = Some v \<and> (s, v) \<in> set (zip ks vs)"
proof -
  assume "s \<in> fst ` set (zip ks vs)"
  then have "s \<in> dom (dict_zip ks vs)" by (simp add: dict_zip_dom)
  then obtain v where "dict_zip ks vs s = Some v" by blast
  with dict_zip_Some [OF this] show ?thesis by blast
qed

text \<open>
  C7 (amended). The closure of \<^const>\<open>extrapolate_ids\<close> looks a row up by its raw key in the
  table built from the registry; the key is normalised only when a new identifier is
  made. When the raw key is a key of the registry, the row receives an identifier that
  the registry pairs with that key, under every strategy, with no allocation: the used
  set and the random source are returned unchanged. When the raw key is not a key of the
  registry (also when its normalised form is one): under \<open>stable\<close> the row receives the
  hash of its normalised key, which is added to the used set; under \<open>random\<close> every
  identifier returned is outside the used set and is added to it, and a first draw that
  is outside the used set is returned at once; under any other strategy the closure
  fails with the strategy error. For the whole frame: under \<open>stable\<close> the call returns the
  frame whose identifier column is computed row by row in this way, and in every frame
  returned under \<open>random\<close> a row with a registry key carries an identifier the registry pairs
  with that key, and a row with any other raw key carries an identifier that is none of
  the registry's.
\<close>

theorem lookup_by_raw_key:
  assumes "map_of existing_df scaffold_col = Some old_keys"
    and "map_of existing_df id_col = Some old_ids"
    and "map_of new_df scaffold_col = Some cells"
  shows "(\<forall>s used q. s \<in> fst ` set (zip old_keys old_ids) \<longrightarrow>
            (\<exists>v. (s, v) \<in> set (zip old_keys old_ids) \<and>
                 get_or_make_id src strategy_new len (dict_zip old_keys old_ids) used q s
                   = Some (Inr (v, used, q)))) \<and>
         (\<forall>s used q. s \<notin> fst ` set (zip old_keys old_ids) \<longrightarrow>
            get_or_make_id src ''stable'' len (dict_zip old_keys old_ids) used q s
              = Some (Inr (PyStr (hash_b32 (scaffold_key s) len),
                           insert (hash_b32 (scaffold_key s) len) used, q))) \<and>
         (\<forall>s used q a used1 q1. s \<notin> fst ` set (zip old_keys old_ids) \<longrightarrow>
            get_or_make_id src ''random'' len (dict_zip old_keys old_ids) used q s
              = Some (Inr (a, used1, q1)) \<longrightarrow>
            (\<exists>t. a = PyStr t \<and> t \<notin> used \<and> used1 = insert t used)) \<and>
         (\<forall>s used q. s \<notin> fst ` set (zip old_keys old_ids) \<longrightarrow>
            drawn_id src default_chars q (nat len) \<notin> used \<longrightarrow>
            get_or_make_id src ''random'' len (dict_zip old_keys old_ids) used q s
              = Some (Inr (PyStr (drawn_id src default_chars q (nat len)),
                           insert (drawn_id src default_chars q (nat len)) used, q + nat len))) \<and>
         (\<forall>s used q. s \<notin> fst ` set (zip old_keys old_ids) \<longrightarrow>
            strategy_new \<noteq> ''stable'' \<longrightarrow> strategy_new \<noteq> ''random'' \<longrightarrow>
            get_or_make_id src strategy_new len (dict_zip old_keys old_ids) used q s
              = Some (Inl ValueError_strategy)) \<and>
         extrapolate_ids src p existing_df new_df scaffold_col id_col ''stable'' len
           = Some (Inr (AList.update id_col
                (map (\<lambda>c. if c \<in> fst ` set (zip old_keys old_ids)
                           then the (dict_zip old_keys old_ids c)
                           else PyStr (hash_b32 (scaffold_key c) len)) cells) new_df, p)) \<and>
         (\<forall>out p'. extrapolate_ids src p existing_df new_df scaffold_col id_col ''random'' len
                      = Some (Inr (out, p')) \<longrightarrow>
            (\<exists>ids. out = AList.update id_col ids new_df \<and> length ids = length cells \<and>
               (\<forall>i<length cells.
                  (cells ! i \<in> fst ` set (zip old_keys old_ids) \<longrightarrow>
                     (cells ! i, ids ! i) \<in> set (zip old_keys old_ids)) \<and>
                  (cells ! i \<notin> fst ` set (zip old_keys old_ids) \<longrightarrow>
                     ids ! i \<notin> set old_ids))))"
proof -
  let ?m = "dict_zip old_keys old_ids"
  let ?K = "fst ` set (zip old_keys old_ids)"
  have hit: "\<exists>v. (s, v) \<in> set (zip old_keys old_ids) \<and>
       get_or_make_id src strategy_new len ?m used q s = Some (Inr (v, used, q))"
    if "s \<in> ?K" for s used q
  proof -
    from dict_zip_present [OF that] obtain v where
      v: "?m s = Some v" "(s, v) \<in> set (zip old_keys old_ids)" by blast
    from v(1) have "get_or_make_id src strategy_new len ?m used q s = Some (Inr (v, used, q))"
      by (rule get_or_make_id_present)
    with v(2) show ?thesis by blast
  qed
  have miss_stable: "get_or_make_id src ''stable'' len ?m used q s
       = Some (Inr (PyStr (hash_b32 (scaffold_key s) len),
                    insert (hash_b32 (scaffold_key s) len) used, q))"
    if "s \<notin> ?K" for s used q
    using dict_zip_None [OF that] by (rule get_or_make_id_stable_new)
  have miss_random: "\<exists>t. a = PyStr t \<and> t \<notin> used \<and> used1 = insert t used"
    if "s \<notin> ?K" "get_or_make_id src ''random'' len ?m used q s = Some (Inr (a, used1, q1))"
    for s used q a used1 q1
    using get_or_make_id_random_new [OF dict_zip_None [OF that(1)] that(2)] .
  have miss_fresh: "get_or_make_id src ''random'' len ?m used q s
       = Some (Inr (PyStr (drawn_id src default_chars q (nat len)),
                    insert (drawn_id src default_chars q (nat len)) used, q + nat len))"
    if "s \<notin> ?K" "drawn_id src default_chars q (nat len) \<notin> used" for s used q
    using dict_zip_None [OF that(1)] that(2) by (rule get_or_make_id_random_fresh)
  have miss_unknown: "get_or_make_id src strategy_new len ?m used q s
       = Some (Inl ValueError_strategy)"
    if "s \<notin> ?K" "strategy_new \<noteq> ''stable''" "strategy_new \<noteq> ''random''" for s used q
    using dict_zip_None [OF that(1)] that(2,3) by (rule get_or_make_id_unknown_new)
  have f: "(\<lambda>c. case ?m c of Some v \<Rightarrow> v | None \<Rightarrow> PyStr (hash_b32 (scaffold_key c) len))
         = (\<lambda>c. if c \<in> ?K then the (?m c) else PyStr (hash_b32 (scaffold_key c) len))"
  proof (rule ext)
    fix c
    show "(case ?m c of Some v \<Rightarrow> v | None \<Rightarrow> PyStr (hash_b32 (scaffold_key c) len))
        = (if c \<in> ?K then the (?m c) else PyStr (hash_b32 (scaffold_key c) len))"
    proof (cases "c \<in> ?K")
      case True
      from dict_zip_present [OF True] obtain v where "?m c = Some v" by blast
      with True show ?thesis by simp
    next
      case False
      from dict_zip_None [OF False] False show ?thesis by simp
    qed
  qed
  have frame_stable: "extrapolate_ids src p existing_df new_df scaffold_col id_col ''stable'' len
           = Some (Inr (AList.update id_col
                (map (\<lambda>c. if c \<in> ?K then the (?m c)
                           else PyStr (hash_b32 (scaffold_key c) len)) cells) new_df, p))"
    using extrapolate_ids_stable [OF assms, where src = src and p = p and len = len]
    by (simp only: f)
  have frame_random: "\<exists>ids. out = AList.update id_col ids new_df \<and> length ids = length cells \<and>
       (\<forall>i<length cells.
          (cells ! i \<in> ?K \<longrightarrow> (cells ! i, ids ! i) \<in> set (zip old_keys old_ids)) \<and>
          (cells ! i \<notin> ?K \<longrightarrow> ids ! i \<notin> set old_ids))"
    if "extrapolate_ids src p existing_df new_df scaffold_col id_col ''random'' len
          = Some (Inr (out, p'))" for out p'
  proof -
    from extrapolate_ids_returned [OF assms that] obtain ids used' where
      a: "apply_get_or_make_id src ''random'' len ?m (set (map py_str old_ids)) p cells
            = Some (Inr (ids, used', p'))"
      and out: "out = AList.update id_col ids new_df"
      by blast
    have known: "(cells ! i, ids ! i) \<in> set (zip old_keys old_ids)"
      if "i < length cells" "cells ! i \<in> ?K" for i
    proof -
      from dict_zip_present [OF that(2)] obtain v where
        v: "?m (cells ! i) = Some v" "(cells ! i, v) \<in> set (zip old_keys old_ids)" by blast
      from apply_get_or_make_id_present [OF a that(1) v(1)] v(2) show ?thesis by simp
    qed
    have unseen: "ids ! i \<notin> set old_ids" if "i < length cells" "cells ! i \<notin> ?K" for i
    proof
      assume m: "ids ! i \<in> set old_ids"
      from apply_get_or_make_id_random_new [OF a that(1) dict_zip_None [OF that(2)]] obtain t
        where t: "ids ! i = PyStr t" "t \<notin> set (map py_str old_ids)" by blast
      from m t(1) have "py_str (PyStr t) \<in> py_str ` set old_ids" by (metis imageI)
      with t(2) show False by simp
    qed
    from known unseen apply_get_or_make_id_length [OF a] out show ?thesis by blast
  qed
  show ?thesis
    apply (intro conjI allI impI)
    subgoal by (rule hit)
    subgoal by (rule miss_stable)
    subgoal by (rule miss_random)
    subgoal by (rule miss_fresh)
    subgoal by (rule miss_unknown)
    subgoal by (rule frame_stable)
    subgoal by (rule frame_random)
    done
qed


text \<open>
  The registry \<open>c1ccccc1\<close> with \<open>AB12CD\<close>, and the new rows \<open>" c1ccccc1"\<close> and \<open>c1ccccc1\<close>: the
  padded key misses although its normalised form is a registry key.
\<close>

lemma random_run_padded:
  "extrapolate_ids counting_source 0
     [(''scaffold_smiles'', [PyStr ''c1ccccc1'']), (''scaffold_id'', [PyStr ''AB12CD''])]
     [(''scaffold_smiles'', [PyStr '' c1ccccc1'', PyStr ''c1ccccc1''])]
     ''scaffold_smiles'' ''scaffold_id'' ''random'' 8
   = Some (Inr ([(''scaffold_smiles'', [PyStr '' c1ccccc1'', PyStr ''c1ccccc1'']),
                 (''scaffold_id'', [PyStr ''ABCDEFGH'', PyStr ''AB12CD''])], 8))"
  by (simp add: extrapolate_ids_def dict_zip_single get_or_make_id_present
      get_or_make_id_random_fresh counting_draw_0)

theorem lookup_by_raw_key_witness:
  "scaffold_key (PyStr '' c1ccccc1'') = ''c1ccccc1'' \<and>
   PyStr ''c1ccccc1'' \<in> fst ` set (zip [PyStr ''c1ccccc1''] [PyStr ''AB12CD'']) \<and>
   PyStr '' c1ccccc1'' \<notin> fst ` set (zip [PyStr ''c1ccccc1''] [PyStr ''AB12CD'']) \<and>
   get_or_make_id counting_source ''random'' 8 (dict_zip [PyStr ''c1ccccc1''] [PyStr ''AB12CD''])
     {''AB12CD''} 0 (PyStr ''c1ccccc1'')
     = Some (Inr (PyStr ''AB12CD'', {''AB12CD''}, 0)) \<and>
   get_or_make_id counting_source ''stable'' 8 (dict_zip [PyStr ''c1ccccc1''] [PyStr ''AB12CD''])
     {''AB12CD''} 0 (PyStr '' c1ccccc1'')
     = Some (Inr (PyStr ''QREAIMMB'', {''QREAIMMB'', ''AB12CD''}, 0)) \<and>
   get_or_make_id counting_source ''random'' 8 (dict_zip [PyStr ''c1ccccc1''] [PyStr ''AB12CD''])
     {''AB12CD''} 0 (PyStr '' c1ccccc1'')
     = Some (Inr (PyStr ''ABCDEFGH'', {''ABCDEFGH'', ''AB12CD''}, 8)) \<and>
   get_or_make_id counting_source ''fastest'' 8 (dict_zip [PyStr ''c1ccccc1''] [PyStr ''AB12CD''])
     {''AB12CD''} 0 (PyStr '' c1ccccc1'')
     = Some (Inl ValueError_strategy) \<and>
   extrapolate_ids counting_source 0
     [(''scaffold_smiles'', [PyStr ''c1ccccc1'']), (''scaffold_id'', [PyStr ''AB12CD''])]
     [(''scaffold_smiles'', [PyStr '' c1ccccc1'', PyStr ''c1ccccc1''])]
     ''scaffold_smiles'' ''scaffold_id'' ''stable'' 8
   = Some (Inr ([(''scaffold_smiles'', [PyStr '' c1ccccc1'', PyStr ''c1ccccc1'']),
                 (''scaffold_id'', [PyStr ''QREAIMMB'', PyStr ''AB12CD''])], 0)) \<and>
   extrapolate_ids counting_source 0
     [(''scaffold_smiles'', [PyStr ''c1ccccc1'']), (''scaffold_id'', [PyStr ''AB12CD''])]
     [(''scaffold_smiles'', [PyStr '' c1ccccc1'', PyStr ''c1ccccc1''])]
     ''scaffold_smiles'' ''scaffold_id'' ''random'' 8
   = Some (Inr ([(''scaffold_smiles'', [PyStr '' c1ccccc1'', PyStr ''c1ccccc1'']),
                 (''scaffold_id'', [PyStr ''ABCDEFGH'', PyStr ''AB12CD''])], 8)) \<and>
   [PyStr ''ABCDEFGH'', PyStr ''AB12CD''] ! 0 \<notin> set [PyStr ''AB12CD'']"
proof -
  let ?keys = "[PyStr ''c1ccccc1'']"
  let ?oids = "[PyStr ''AB12CD'']"
  let ?cells = "[PyStr '' c1ccccc1'', PyStr ''c1ccccc1'']"
  let ?reg = "[(''scaffold_smiles'', ?keys), (''scaffold_id'', ?oids)]"
  let ?new = "[(''scaffold_smiles'', ?cells)]"
  let ?m = "dict_zip ?keys ?oids"
  have a: "map_of ?reg ''scaffold_smiles'' = Some ?keys" by simp
  have b: "map_of ?reg ''scaffold_id'' = Some ?oids" by simp
  have c: "map_of ?new ''scaffold_smiles'' = Some ?cells" by simp
  have k: "scaffold_key (PyStr '' c1ccccc1'') = ''c1ccccc1''"
    by (simp add: scaffold_key_def py_strip_padded_benzene)
  have inK: "PyStr ''c1ccccc1'' \<in> fst ` set (zip ?keys ?oids)" by simp
  have outK: "PyStr '' c1ccccc1'' \<notin> fst ` set (zip ?keys ?oids)" by simp
  have d: "drawn_id counting_source default_chars 0 (nat 8) \<notin> {''AB12CD''}"
    by (simp add: counting_draw_0)
  have ne: "''fastest'' \<noteq> ''stable''" "''fastest'' \<noteq> ''random''" by simp_all
  note t = lookup_by_raw_key [OF a b c,
      where src = counting_source and p = 0 and len = 8 and strategy_new = "''random''"]
  note u = lookup_by_raw_key [OF a b c,
      where src = counting_source and p = 0 and len = 8 and strategy_new = "''fastest''"]
  note t1 = t [THEN conjunct1, rule_format, OF inK]
  note t2 = t [THEN conjunct2, THEN conjunct1, rule_format, OF outK]
  note t4 = t [THEN conjunct2, THEN conjunct2, THEN conjunct2, THEN conjunct1,
      rule_format, OF outK d]
  note u5 = u [THEN conjunct2, THEN conjunct2, THEN conjunct2, THEN conjunct2, THEN conjunct1,
      rule_format, OF outK ne]
  note t6 = t [THEN conjunct2, THEN conjunct2, THEN conjunct2, THEN conjunct2, THEN conjunct2,
      THEN conjunct1]
  note t7 = t [THEN conjunct2, THEN conjunct2, THEN conjunct2, THEN conjunct2, THEN conjunct2,
      THEN conjunct2, rule_format, OF random_run_padded]
  have "\<exists>v. (PyStr ''c1ccccc1'', v) \<in> set (zip ?keys ?oids) \<and>
      get_or_make_id counting_source ''random'' 8 ?m {''AB12CD''} 0 (PyStr ''c1ccccc1'')
        = Some (Inr (v, {''AB12CD''}, 0))"
    by (rule t1)
  then obtain v where v: "(PyStr ''c1ccccc1'', v) \<in> set (zip ?keys ?oids)"
    and g: "get_or_make_id counting_source ''random'' 8 ?m {''AB12CD''} 0 (PyStr ''c1ccccc1'')
        = Some (Inr (v, {''AB12CD''}, 0))"
    by blast
  from v have "v = PyStr ''AB12CD''" by simp
  with g have hit: "get_or_make_id counting_source ''random'' 8 ?m {''AB12CD''} 0
      (PyStr ''c1ccccc1'') = Some (Inr (PyStr ''AB12CD'', {''AB12CD''}, 0))"
    by simp
  have ms: "get_or_make_id counting_source ''stable'' 8 ?m {''AB12CD''} 0
      (PyStr '' c1ccccc1'')
      = Some (Inr (PyStr ''QREAIMMB'', {''QREAIMMB'', ''AB12CD''}, 0))"
    using t2 [where used = "{''AB12CD''}" and q = 0] by (simp only: k hash_benzene_8)
  have mr: "get_or_make_id counting_source ''random'' 8 ?m {''AB12CD''} 0
      (PyStr '' c1ccccc1'')
      = Some (Inr (PyStr ''ABCDEFGH'', {''ABCDEFGH'', ''AB12CD''}, 8))"
    using t4 by (simp add: counting_draw_0)
  have mu: "get_or_make_id counting_source ''fastest'' 8 ?m {''AB12CD''} 0
      (PyStr '' c1ccccc1'') = Some (Inl ValueError_strategy)"
    by (rule u5)
  have fs: "extrapolate_ids counting_source 0 ?reg ?new
      ''scaffold_smiles'' ''scaffold_id'' ''stable'' 8
      = Some (Inr ([(''scaffold_smiles'', ?cells),
                    (''scaffold_id'', [PyStr ''QREAIMMB'', PyStr ''AB12CD''])], 0))"
    using t6 by (simp add: k hash_benzene_8 dict_zip_single)
  from t7 obtain ids where
    i: "[(''scaffold_smiles'', ?cells), (''scaffold_id'', [PyStr ''ABCDEFGH'', PyStr ''AB12CD''])]
        = AList.update ''scaffold_id'' ids ?new"
       "\<forall>i<length ?cells.
          (?cells ! i \<in> fst ` set (zip ?keys ?oids) \<longrightarrow>
             (?cells ! i, ids ! i) \<in> set (zip ?keys ?oids)) \<and>
          (?cells ! i \<notin> fst ` set (zip ?keys ?oids) \<longrightarrow> ids ! i \<notin> set ?oids)"
    by blast
  from i(1) have ids: "ids = [PyStr ''ABCDEFGH'', PyStr ''AB12CD'']" by simp
  from i(2) [rule_format, of 0] have "ids ! 0 \<notin> set ?oids" by simp
  with ids have n: "[PyStr ''ABCDEFGH'', PyStr ''AB12CD''] ! 0 \<notin> set ?oids" by simp
  show ?thesis
    apply (intro conjI)
    subgoal by (rule k)
    subgoal by (rule inK)
    subgoal by (rule outK)
    subgoal by (rule hit)
    subgoal by (rule ms)
    subgoal by (rule mr)
    subgoal by (rule mu)
    subgoal by (rule fs)
    subgoal by (rule random_run_padded)
    subgoal by (rule n)
    done
qed

end
